theory Spec2Isabelle
  imports Complex_Main "HOL-Library.Word"
begin

unbundle bit_operations_syntax

section \<open>DANTON: decaying taus from ultra high energy neutrinos\<close>

text \<open>
  A shallow embedding of the library part of DANTON (the C file that holds
  \<^verbatim>\<open>medium\<close>, \<^verbatim>\<open>transport_forward\<close>, \<^verbatim>\<open>transport_backward\<close>,
  \<^verbatim>\<open>danton_sampler_update\<close> and \<^verbatim>\<open>danton_run\<close>).

  Conventions of the embedding.
  \<^item> A C \<^verbatim>\<open>double\<close> that the program computes with is the real number it denotes:
    rounding, infinities and NaN are outside the model. The fields of the sampler are
    the one exception: the program hashes their bytes, so they are kept as IEEE-754
    binary64 bit patterns and read as reals through \<open>dval\<close>.
  \<^item> A C \<^verbatim>\<open>int\<close> or \<^verbatim>\<open>long\<close> that only counts (generation, event number,
    crossing count, table index) is an \<open>int\<close>; \<^verbatim>\<open>unsigned long\<close> is a \<open>64 word\<close>
    (LP64) and \<^verbatim>\<open>unsigned char\<close> an \<open>8 word\<close>.
  \<^item> The three physics engines (ENT, PUMAS, ALOUETTE) are libraries outside the
    program: they are parameters of the model, functions on a state \<open>'w\<close> of their own.
\<close>

subsection \<open>Constants\<close>

text \<open>The two radii among the macros at the top of the file, in m.\<close>

definition EARTH_RADIUS :: real where
  "EARTH_RADIUS = 6371000"

definition GEO_ORBIT :: real where
  "GEO_ORBIT = 42164000"

text \<open>
  \<^verbatim>\<open>FLT_EPSILON\<close> comes from the C library's \<^verbatim>\<open>float.h\<close>; for IEEE-754 single
  precision it is \<open>2\<^sup>-\<^sup>2\<^sup>3\<close>.
\<close>

definition FLT_EPSILON :: real where
  "FLT_EPSILON = 1 / 2 ^ 23"

text \<open>
  Modelled from the spec: \<^verbatim>\<open>ent.h\<close>, which declares \<^verbatim>\<open>enum ent_pid\<close>, is not among
  the sources. The spec calls the identity of a particle a "signed PDG-style particle
  code" and gives \<open>-12\<close>, \<open>16\<close> and \<open>-16\<close> as the codes of the neutrinos accepted on the
  command line; the source compares the same field with the literals \<open>16\<close>, \<open>-12\<close>,
  \<open>12\<close>, \<open>13\<close> and \<open>14\<close>. The values below are those of the PDG numbering scheme.
\<close>

definition ENT_PID_NU_BAR_TAU :: int where
  "ENT_PID_NU_BAR_TAU = - 16"

definition ENT_PID_TAU_BAR :: int where
  "ENT_PID_TAU_BAR = - 15"

definition ENT_PID_NU_BAR_MU :: int where
  "ENT_PID_NU_BAR_MU = - 14"

definition ENT_PID_NU_BAR_E :: int where
  "ENT_PID_NU_BAR_E = - 12"

definition ENT_PID_NU_E :: int where
  "ENT_PID_NU_E = 12"

definition ENT_PID_NU_MU :: int where
  "ENT_PID_NU_MU = 14"

definition ENT_PID_TAU :: int where
  "ENT_PID_TAU = 15"

definition ENT_PID_NU_TAU :: int where
  "ENT_PID_NU_TAU = 16"

lemmas ENT_PID_defs =
  ENT_PID_NU_BAR_TAU_def ENT_PID_TAU_BAR_def ENT_PID_NU_BAR_MU_def ENT_PID_NU_BAR_E_def
  ENT_PID_NU_E_def ENT_PID_NU_MU_def ENT_PID_TAU_def ENT_PID_NU_TAU_def

text \<open>
  Modelled from the spec: \<^verbatim>\<open>danton.h\<close>, which declares \<^verbatim>\<open>enum danton_particle\<close>, is
  not among the sources. The spec speaks of "a per-particle-kind target weight vector";
  the source fixes the order of the kinds by the table of \<^verbatim>\<open>danton_particle_pdg\<close>
  (eight entries, one per enumerator, in the order of the enumerators) and by the loop
  of \<^verbatim>\<open>danton_sampler_update\<close>, which takes the first \<^verbatim>\<open>DANTON_PARTICLE_N - 2\<close> kinds
  for the neutrinos and leaves \<^verbatim>\<open>TAU_BAR\<close> and \<^verbatim>\<open>TAU\<close> last. The unknown particle is
  an enumerator outside the table, \<open>-1\<close>.
\<close>

definition DANTON_PARTICLE_UNKNOWN :: int where
  "DANTON_PARTICLE_UNKNOWN = - 1"

definition DANTON_PARTICLE_NU_BAR_TAU :: int where
  "DANTON_PARTICLE_NU_BAR_TAU = 0"

definition DANTON_PARTICLE_NU_BAR_MU :: int where
  "DANTON_PARTICLE_NU_BAR_MU = 1"

definition DANTON_PARTICLE_NU_BAR_E :: int where
  "DANTON_PARTICLE_NU_BAR_E = 2"

definition DANTON_PARTICLE_NU_E :: int where
  "DANTON_PARTICLE_NU_E = 3"

definition DANTON_PARTICLE_NU_MU :: int where
  "DANTON_PARTICLE_NU_MU = 4"

definition DANTON_PARTICLE_NU_TAU :: int where
  "DANTON_PARTICLE_NU_TAU = 5"

definition DANTON_PARTICLE_TAU_BAR :: int where
  "DANTON_PARTICLE_TAU_BAR = 6"

definition DANTON_PARTICLE_TAU :: int where
  "DANTON_PARTICLE_TAU = 7"

definition DANTON_PARTICLE_N :: int where
  "DANTON_PARTICLE_N = 8"

lemmas DANTON_PARTICLE_defs =
  DANTON_PARTICLE_UNKNOWN_def DANTON_PARTICLE_NU_BAR_TAU_def DANTON_PARTICLE_NU_BAR_MU_def
  DANTON_PARTICLE_NU_BAR_E_def DANTON_PARTICLE_NU_E_def DANTON_PARTICLE_NU_MU_def
  DANTON_PARTICLE_NU_TAU_def DANTON_PARTICLE_TAU_BAR_def DANTON_PARTICLE_TAU_def
  DANTON_PARTICLE_N_def

subsection \<open>Particle tables\<close>

text \<open>The local table \<^verbatim>\<open>pdg[DANTON_PARTICLE_N]\<close> of \<^verbatim>\<open>danton_particle_pdg\<close>.\<close>

definition pdg_table :: "int list" where
  "pdg_table = [ENT_PID_NU_BAR_TAU, ENT_PID_NU_BAR_MU, ENT_PID_NU_BAR_E, ENT_PID_NU_E,
     ENT_PID_NU_MU, ENT_PID_NU_TAU, ENT_PID_TAU_BAR, ENT_PID_TAU]"

definition danton_particle_pdg :: "int \<Rightarrow> int" where
  "danton_particle_pdg index =
     (if index < 0 \<or> index \<ge> DANTON_PARTICLE_N then 0 else pdg_table ! nat index)"

definition danton_particle_index :: "int \<Rightarrow> int" where
  "danton_particle_index pdg =
     (if pdg > 0 then
        (if pdg = ENT_PID_NU_E then DANTON_PARTICLE_NU_E
         else if pdg = ENT_PID_NU_MU then DANTON_PARTICLE_NU_MU
         else if pdg = ENT_PID_NU_TAU then DANTON_PARTICLE_NU_TAU
         else if pdg = ENT_PID_TAU then DANTON_PARTICLE_TAU
         else DANTON_PARTICLE_UNKNOWN)
      else
        (if pdg = ENT_PID_NU_BAR_TAU then DANTON_PARTICLE_NU_BAR_TAU
         else if pdg = ENT_PID_NU_BAR_MU then DANTON_PARTICLE_NU_BAR_MU
         else if pdg = ENT_PID_NU_BAR_E then DANTON_PARTICLE_NU_BAR_E
         else if pdg = ENT_PID_TAU_BAR then DANTON_PARTICLE_TAU_BAR
         else DANTON_PARTICLE_UNKNOWN))"

subsection \<open>Particle states\<close>

text \<open>
  \<^verbatim>\<open>struct ent_state\<close> and \<^verbatim>\<open>struct pumas_state\<close> belong to the engines. The members
  that the program reads and writes are kept; the five members that the two structs
  have in common are the parent record, so that both share their names. An \<^verbatim>\<open>int\<close>
  that the program only tests for zero is a \<open>bool\<close>.
\<close>

type_synonym vec3 = "real \<times> real \<times> real"

record track_state =
  distance :: real
  grammage :: real
  weight :: real
  position :: vec3
  direction :: vec3

record ent_state = track_state +
  pid :: int
  energy :: real

record pumas_state = track_state +
  charge :: real
  kinetic :: real
  time :: real
  decayed :: bool

text \<open>
  \<^verbatim>\<open>struct generic_state\<close>: the engine's state (the union \<^verbatim>\<open>base\<close>, here the type
  parameter) followed by the stepping data. The member \<^verbatim>\<open>medium\<close> is \<open>medium_ix\<close>
  and the member \<^verbatim>\<open>r\<close> is \<open>r_cache\<close>, their names being taken by the function
  \<open>medium\<close> and by variables. The pointer to the context is not kept: the context is
  passed along.
\<close>

record 'b generic_state =
  base :: 'b
  medium_ix :: int
  density :: real
  r_cache :: real
  is_tau :: bool
  is_inside :: int
  has_crossed :: int
  cross_count :: int

subsection \<open>The sampler and its hash\<close>

text \<open>
  A \<^verbatim>\<open>double\<close> of the sampler is its IEEE-754 binary64 bit pattern; \<open>dval\<close> is the
  real number that a finite pattern denotes (sign, 11 bits of biased exponent, 52 bits
  of fraction).
\<close>

type_synonym double = "64 word"

definition dval :: "double \<Rightarrow> real" where
  "dval w =
     (let e = unat (drop_bit 52 w AND 0x7FF);
          m = unat (w AND 0xFFFFFFFFFFFFF);
          a = (if e = 0 then real m / 2 ^ 1074
               else if e < 1075 then real (2 ^ 52 + m) / 2 ^ (1075 - e)
               else real (2 ^ 52 + m) * 2 ^ (e - 1075))
      in if bit w 63 then - a else a)"

text \<open>
  Modelled from the spec: \<^verbatim>\<open>danton.h\<close>, which declares \<^verbatim>\<open>struct danton_sampler\<close>, is
  not among the sources. The spec lists its inputs: "cos-\<open>\<theta>\<close> range, elevation range,
  altitude range, energy range, per-particle-kind target weights"; the source reads
  them as \<^verbatim>\<open>altitude[2]\<close>, \<^verbatim>\<open>cos_theta[2]\<close>, \<^verbatim>\<open>elevation[2]\<close>, \<^verbatim>\<open>energy[2]\<close> and
  \<^verbatim>\<open>weight[DANTON_PARTICLE_N]\<close>. A range \<^verbatim>\<open>x[2]\<close> is the pair \<open>(x[0], x[1])\<close>, the
  table of weights a function of the index. The members \<^verbatim>\<open>energy\<close> and \<^verbatim>\<open>weight\<close> are
  \<open>sampler_energy\<close> and \<open>sampler_weight\<close>, their names being taken by the states.
\<close>

record danton_sampler =
  altitude :: "double \<times> double"
  cos_theta :: "double \<times> double"
  elevation :: "double \<times> double"
  sampler_energy :: "double \<times> double"
  sampler_weight :: "nat \<Rightarrow> double"

text \<open>
  \<^verbatim>\<open>struct event_sampler\<close>. The member \<^verbatim>\<open>api\<close> is \<open>sampler_api\<close> and the member
  \<^verbatim>\<open>hash\<close> is \<open>stored_hash\<close>. The two derived weights are computed values: reals.
\<close>

record event_sampler =
  sampler_api :: danton_sampler
  endstr :: "8 word"
  neutrino_weight :: real
  total_weight :: real
  stored_hash :: "64 word"

text \<open>
  The bytes of a \<^verbatim>\<open>double\<close> in memory, lowest address first, on a little-endian
  machine, and the bytes that \<^verbatim>\<open>(unsigned char *)sampler\<close> points to: the members of
  the public struct in the order above, then \<^verbatim>\<open>endstr\<close>. What follows \<^verbatim>\<open>endstr\<close> in
  memory is not modelled; \<^verbatim>\<open>danton_sampler_create\<close> zeroes \<^verbatim>\<open>endstr\<close> and nothing
  writes it afterwards, so that the hash never reads further.
\<close>

definition le_bytes :: "double \<Rightarrow> 8 word list" where
  "le_bytes w = map (\<lambda>i. ucast (drop_bit (8 * i) w)) [0..<8]"

definition danton_sampler_bytes :: "danton_sampler \<Rightarrow> 8 word list" where
  "danton_sampler_bytes a =
     concat (map le_bytes
       ([fst (altitude a), snd (altitude a), fst (cos_theta a), snd (cos_theta a),
         fst (elevation a), snd (elevation a), fst (sampler_energy a), snd (sampler_energy a)]
        @ map (sampler_weight a) [0..<nat DANTON_PARTICLE_N]))"

definition sampler_memory :: "event_sampler \<Rightarrow> 8 word list" where
  "sampler_memory s = danton_sampler_bytes (sampler_api s) @ [endstr s]"

text \<open>
  \<^verbatim>\<open>hash\<close>: Bernstein's djb2 over a C string, which ends at the first zero byte. The
  argument is the memory from the pointer on.
\<close>

fun hash_loop :: "64 word \<Rightarrow> 8 word list \<Rightarrow> 64 word" where
  "hash_loop h [] = h"
| "hash_loop h (c # str) =
     (if c = 0 then h else hash_loop ((push_bit 5 h + h) + ucast c) str)"

definition hash :: "8 word list \<Rightarrow> 64 word" where
  "hash str = hash_loop 5381 str"

text \<open>
  \<^verbatim>\<open>danton_sampler_create\<close>, when \<^verbatim>\<open>malloc\<close> succeeds: \<^verbatim>\<open>memset\<close> to zero, then
  \<^verbatim>\<open>hash--\<close>, which wraps to the largest \<^verbatim>\<open>unsigned long\<close>.
\<close>

definition danton_sampler_create :: event_sampler where
  "danton_sampler_create =
     \<lparr>sampler_api = \<lparr>altitude = (0, 0), cos_theta = (0, 0), elevation = (0, 0),
        sampler_energy = (0, 0), sampler_weight = (\<lambda>_. 0)\<rparr>,
      endstr = 0, neutrino_weight = 0, total_weight = 0, stored_hash = 0 - 1\<rparr>"

datatype status = EXIT_SUCCESS | EXIT_FAILURE

text \<open>
  \<^verbatim>\<open>danton_sampler_update\<close> returns its status and works on the sampler in place: the
  model returns both. The diagnostic printed on \<^verbatim>\<open>stderr\<close> is not modelled. The loop
  over the neutrino weights is \<open>neutrino_weight_loop\<close>.
\<close>

fun neutrino_weight_loop :: "danton_sampler \<Rightarrow> nat \<Rightarrow> real \<Rightarrow> real" where
  "neutrino_weight_loop a 0 acc = acc"
| "neutrino_weight_loop a (Suc n) acc =
     neutrino_weight_loop a n acc
       + (if dval (sampler_weight a n) \<le> 0 then 0 else dval (sampler_weight a n))"

definition danton_sampler_update :: "event_sampler \<Rightarrow> status \<times> event_sampler" where
  "danton_sampler_update s =
     (let a = sampler_api s in
      if dval (fst (altitude a)) < 0 \<or> dval (fst (altitude a)) > dval (snd (altitude a))
      then (EXIT_FAILURE, s)
      else if dval (fst (cos_theta a)) < 0 \<or>
              dval (fst (cos_theta a)) > dval (snd (cos_theta a)) \<or>
              dval (snd (cos_theta a)) > 1
      then (EXIT_FAILURE, s)
      else if dval (fst (elevation a)) < - 90 \<or>
              dval (fst (elevation a)) > dval (snd (elevation a)) \<or>
              dval (snd (elevation a)) > 90
      then (EXIT_FAILURE, s)
      else if dval (fst (sampler_energy a)) < 100 \<or>
              dval (fst (sampler_energy a)) > dval (snd (sampler_energy a)) \<or>
              dval (snd (sampler_energy a)) < 10 ^ 12
      then (EXIT_FAILURE, s)
      else
        let nw = neutrino_weight_loop a (nat (DANTON_PARTICLE_N - 2)) 0;
            tw0 = nw;
            tw1 = (if dval (sampler_weight a (nat DANTON_PARTICLE_TAU_BAR)) > 0
                   then tw0 + dval (sampler_weight a (nat DANTON_PARTICLE_TAU_BAR)) else tw0);
            tw2 = (if dval (sampler_weight a (nat DANTON_PARTICLE_TAU)) > 0
                   then tw1 + dval (sampler_weight a (nat DANTON_PARTICLE_TAU)) else tw1);
            s1 = s\<lparr>neutrino_weight := nw, total_weight := tw2\<rparr>
        in (EXIT_SUCCESS, s1\<lparr>stored_hash := hash (sampler_memory s1)\<rparr>))"

subsection \<open>The context\<close>

text \<open>
  Modelled from the spec: \<^verbatim>\<open>struct danton_context\<close> is declared in \<^verbatim>\<open>danton.h\<close>, which
  is not among the sources. The spec gives the context its "mode flags (forward,
  longitudinal-only, decay-vs-flux, grammage), pointer to sampler, output sink"; the
  source reads the members \<^verbatim>\<open>forward\<close>, \<^verbatim>\<open>longitudinal\<close>, \<^verbatim>\<open>decay\<close>, \<^verbatim>\<open>grammage\<close>,
  \<^verbatim>\<open>sampler\<close> and \<^verbatim>\<open>output\<close>. The member \<^verbatim>\<open>grammage\<close> is \<open>grammage_scan\<close>, its name
  being taken by the states, and the member \<^verbatim>\<open>output\<close> is \<open>output_file\<close>. A pointer
  that may be \<^verbatim>\<open>NULL\<close> is an \<open>option\<close>.
\<close>

record danton_context =
  forward :: bool
  longitudinal :: bool
  decay :: bool
  grammage_scan :: bool
  sampler :: "event_sampler option"
  output_file :: "string option"

text \<open>The Mersenne Twister of the context: \<^verbatim>\<open>index\<close> and \<^verbatim>\<open>data[MT_PERIOD]\<close>.\<close>

record random_mt_state =
  mt_index :: int
  mt_data :: "nat \<Rightarrow> 64 word"

text \<open>
  \<^verbatim>\<open>struct simulation_context\<close>. Of the sub-context of PUMAS the members
  \<^verbatim>\<open>kinetic_limit\<close> and \<^verbatim>\<open>grammage_max\<close> are kept, which the program sets; the rest
  of the two sub-contexts belongs to the engines.
\<close>

record simulation_context =
  api :: danton_context
  pumas_kinetic_limit :: real
  pumas_grammage_max :: real
  energy_cut :: real
  primary_dumped :: bool
  flux_neutrino :: bool
  random_mt :: random_mt_state

subsection \<open>The geometry\<close>

text \<open>The table \<^verbatim>\<open>ri[16]\<close> of \<^verbatim>\<open>medium\<close>: the outer radii of the shells, in m.\<close>

definition ri :: "real list" where
  "ri = [1221500, 3480000, 5701000, 5771000, 5971000, 6151000, 6346600, 6356000, 6368000,
     EARTH_RADIUS, EARTH_RADIUS + 4000, EARTH_RADIUS + 10000, EARTH_RADIUS + 40000,
     EARTH_RADIUS + 100000, GEO_ORBIT, 2 * GEO_ORBIT]"

definition dot :: "vec3 \<Rightarrow> vec3 \<Rightarrow> real" where
  "dot u v = (case (u, v) of ((u0, u1, u2), (v0, v1, v2)) \<Rightarrow> u0 * v0 + u1 * v1 + u2 * v2)"

text \<open>
  The step in shell \<open>i\<close>, from the radius \<open>r\<close> and \<open>b\<close>, the product of the position and
  the direction: the body of the \<^verbatim>\<open>if (r <= ri[i])\<close> of \<^verbatim>\<open>medium\<close> after the index
  is stored.
\<close>

definition shell_step :: "nat \<Rightarrow> real \<Rightarrow> real \<Rightarrow> real" where
  "shell_step i r b =
     (let d2 = b * b + ri ! i * ri ! i - r * r;
          d = (if d2 \<le> 0 then 0 else sqrt d2);
          step = d - b;
          step1 =
            (if i > 0 \<and> b < 0 then
               let r1 = ri ! (i - 1);
                   d2' = b * b + r1 * r1 - r * r
               in if d2' > 0 then
                    let d' = sqrt d2';
                        s = - b - d'
                    in if s > 0 \<and> s < step then s else step
                  else step
             else step)
      in if step1 < 1 / 1000 then 1 / 1000 else step1)"

text \<open>
  The loop \<^verbatim>\<open>for (i = 0; i < sizeof(ri) / sizeof(*ri) - 1; i++)\<close> of \<^verbatim>\<open>medium\<close>, from
  the index \<open>i\<close> on: it returns the step and the state.
\<close>

function medium_loop ::
  "nat \<Rightarrow> vec3 \<Rightarrow> vec3 \<Rightarrow> real \<Rightarrow> 'b generic_state \<Rightarrow> real \<times> 'b generic_state" where
  "medium_loop i pos dir r state =
     (if i < length ri - 1 then
        if r \<le> ri ! i then (shell_step i r (dot pos dir), state\<lparr>medium_ix := int i\<rparr>)
        else medium_loop (i + 1) pos dir r state
      else (0, state))"
  by pat_completeness auto
termination
  by (relation "measure (\<lambda>(i, pos, dir, r, state). length ri - 1 - i)") auto

declare medium_loop.simps [simp del]

text \<open>The radius of a position, \<open>r\<close> in \<^verbatim>\<open>medium\<close>.\<close>

definition radius :: "vec3 \<Rightarrow> real" where
  "radius pos = sqrt (dot pos pos)"

text \<open>
  \<^verbatim>\<open>medium\<close>, the generic medium callback. It returns the step and works on the state in
  place: the model returns both. The check of the flux boundary reads the sampler
  through the pointer of the context; where that pointer is \<^verbatim>\<open>NULL\<close> the program has no
  defined behaviour, and the model returns \<open>None\<close>.
\<close>

definition medium ::
  "simulation_context \<Rightarrow> vec3 \<Rightarrow> vec3 \<Rightarrow> 'b generic_state
     \<Rightarrow> (real \<times> 'b generic_state) option" where
  "medium context pos dir state0 =
     (let state1 = state0\<lparr>medium_ix := - 1\<rparr>;
          step = 0;
          r2 = dot pos pos
      in if r2 > GEO_ORBIT * GEO_ORBIT then Some (step, state1)
         else
           let r = sqrt r2;
               state2 = state1\<lparr>r_cache := r\<rparr>;
               rest = (\<lambda>state3.
                 if \<not> is_tau state3 \<and> r_cache state3 > ri ! 13 then (step, state3)
                 else medium_loop 0 pos dir r state3)
           in if \<not> decay (api context) \<and> has_crossed state2 \<ge> 0 then
                case sampler (api context) of
                  None \<Rightarrow> None
                | Some s \<Rightarrow>
                    let zi = dval (fst (altitude (sampler_api s)));
                        rf = EARTH_RADIUS + zi
                    in if is_inside state2 < 0
                       then Some (rest (state2\<lparr>is_inside := (if r < rf then 1 else 0)\<rparr>))
                       else if (is_inside state2 \<noteq> 0 \<and> r \<ge> rf) \<or>
                               (is_inside state2 = 0 \<and> r \<le> rf)
                       then Some (step, state2\<lparr>has_crossed := 1\<rparr>)
                       else Some (rest state2)
              else Some (rest state2))"

subsection \<open>The random source\<close>

definition MT_PERIOD :: nat where
  "MT_PERIOD = 624"

definition mag01 :: "64 word \<Rightarrow> 64 word" where
  "mag01 i = (if i = 0 then 0x0 else 0x9908b0df)"

text \<open>
  One assignment of the update of the state in \<^verbatim>\<open>random_uniform01\<close>:
  \<^verbatim>\<open>y = (data[kk] & UPPER_MASK) | (data[k1] & LOWER_MASK); data[kk] = data[km] ^ (y >> 1) ^ mag01[y & 0x1UL]\<close>.
\<close>

definition mt_twist :: "nat \<Rightarrow> nat \<Rightarrow> nat \<Rightarrow> (nat \<Rightarrow> 64 word) \<Rightarrow> (nat \<Rightarrow> 64 word)" where
  "mt_twist kk k1 km d =
     (let y = (d kk AND 0x80000000) OR (d k1 AND 0x7fffffff)
      in d(kk := d km XOR drop_bit 1 y XOR mag01 (y AND 0x1)))"

definition mt_update :: "(nat \<Rightarrow> 64 word) \<Rightarrow> (nat \<Rightarrow> 64 word)" where
  "mt_update d =
     (let M = 397;
          d1 = fold (\<lambda>kk. mt_twist kk (kk + 1) (kk + M)) [0..<MT_PERIOD - M] d;
          d2 = fold (\<lambda>kk. mt_twist kk (kk + 1) (kk - (MT_PERIOD - M)))
                 [MT_PERIOD - M..<MT_PERIOD - 1] d1
      in mt_twist (MT_PERIOD - 1) 0 (M - 1) d2)"

definition mt_temper :: "64 word \<Rightarrow> 64 word" where
  "mt_temper y0 =
     (let y1 = y0 XOR drop_bit 11 y0;
          y2 = y1 XOR (push_bit 7 y1 AND 0x9d2c5680);
          y3 = y2 XOR (push_bit 15 y2 AND 0xefc60000)
      in y3 XOR drop_bit 18 y3)"

definition random_uniform01 :: "simulation_context \<Rightarrow> real \<times> simulation_context" where
  "random_uniform01 context =
     (let mt = random_mt context;
          mt' = (if mt_index mt < int MT_PERIOD - 1 then mt\<lparr>mt_index := mt_index mt + 1\<rparr>
                 else \<lparr>mt_index = 0, mt_data = mt_update (mt_data mt)\<rparr>);
          y = mt_temper (mt_data mt' (nat (mt_index mt')))
      in (real (unat y) * (1 / 4294967295), context\<lparr>random_mt := mt'\<rparr>))"

subsection \<open>Drawing the primaries\<close>

text \<open>
  The two draws take the range as a pair of reals and the weight as an option
  (\<^verbatim>\<open>NULL\<close> is \<open>None\<close>); they return the draw, the weight and the context, whose random
  source they may have advanced.
\<close>

definition sample_linear ::
  "simulation_context \<Rightarrow> real \<times> real \<Rightarrow> int \<Rightarrow> int \<Rightarrow> real option
     \<Rightarrow> real \<times> real option \<times> simulation_context" where
  "sample_linear context x i n wgt =
     (if fst x < snd x then
        let dx = snd x - fst x in
        if grammage_scan (api context) \<and> n > 0 then
          let u = (if n > 1 then real_of_int i / (real_of_int n - 1) else 0)
          in (dx * u + fst x, wgt, context)
        else
          let (u, context') = random_uniform01 context
          in (dx * u + fst x, map_option (\<lambda>w. w * dx) wgt, context')
      else (fst x, wgt, context))"

definition sample_log_or_linear ::
  "simulation_context \<Rightarrow> real \<times> real \<Rightarrow> real option
     \<Rightarrow> real \<times> real option \<times> simulation_context" where
  "sample_log_or_linear context x wgt =
     (if fst x < snd x then
        if fst x > 0 \<or> snd x < 0 then
          let rr = ln (snd x / fst x);
              (u, context') = random_uniform01 context;
              xi = fst x * exp (rr * u)
          in (xi, map_option (\<lambda>w. w * (\<bar>rr\<bar> * xi)) wgt, context')
        else
          let dx = snd x - fst x;
              (u, context') = random_uniform01 context
          in (fst x + dx * u, map_option (\<lambda>w. w * dx) wgt, context')
      else (fst x, wgt, context))"

subsection \<open>The run: configuration and forward primaries\<close>

text \<open>
  \<^verbatim>\<open>danton_run\<close> up to the point where it opens the output: the checks that end it
  with \<^verbatim>\<open>EXIT_FAILURE\<close> and the configuration of the context. The model returns the
  status, the context as the checks leave it and the number of events. The tau mass is
  the global \<^verbatim>\<open>tau_mass\<close>, which the initialisation of PUMAS sets.
\<close>

definition danton_run_configure ::
  "real \<Rightarrow> simulation_context \<Rightarrow> int \<Rightarrow> status \<times> simulation_context \<times> int" where
  "danton_run_configure tau_mass context events =
     (case sampler (api context) of
        None \<Rightarrow> (EXIT_FAILURE, context, events)
      | Some s \<Rightarrow>
        if stored_hash s \<noteq> hash (sampler_memory s) then (EXIT_FAILURE, context, events)
        else
          let a = sampler_api s;
              (rc, c1, ev1) =
                (if grammage_scan (api context) then
                   if forward (api context) then
                     if dval (fst (cos_theta a)) = dval (snd (cos_theta a))
                     then (EXIT_SUCCESS, context\<lparr>flux_neutrino := True\<rparr>, 1)
                     else if events < 2 then (EXIT_FAILURE, context, events)
                     else (EXIT_SUCCESS, context\<lparr>flux_neutrino := True\<rparr>, events)
                   else
                     if dval (fst (elevation a)) = dval (snd (elevation a))
                     then (EXIT_SUCCESS, context, 1)
                     else if events < 2 then (EXIT_FAILURE, context, events)
                     else (EXIT_SUCCESS, context, events)
                 else
                   if total_weight s \<le> 0 then (EXIT_FAILURE, context, events)
                   else
                     let c0 = (if forward (api context)
                               then context\<lparr>flux_neutrino := neutrino_weight s > 0\<rparr>
                               else context)
                     in if decay (api context) then
                          if neutrino_weight s = total_weight s then (EXIT_FAILURE, c0, events)
                          else if forward (api context) then
                            if neutrino_weight s > 0 then (EXIT_FAILURE, c0, events)
                            else if dval (fst (altitude a)) = dval (snd (altitude a))
                            then (EXIT_FAILURE, c0, events)
                            else (EXIT_SUCCESS, c0, events)
                          else (EXIT_SUCCESS, c0, events)
                        else (EXIT_SUCCESS, c0, events))
          in if rc = EXIT_FAILURE then (EXIT_FAILURE, c1, ev1)
             else
               let cut = (if forward (api context) then dval (fst (sampler_energy a))
                          else 10 ^ 12)
               in (EXIT_SUCCESS,
                   c1\<lparr>energy_cut := cut, pumas_kinetic_limit := cut - tau_mass\<rparr>, ev1))"

text \<open>
  The choice of the projectile in \<^verbatim>\<open>danton_run\<close>: the PDG code of the first kind with
  a positive weight, \<^verbatim>\<open>ENT_PID_NU_TAU\<close> if there is none or in a grammage scan.
\<close>

fun projectile_loop :: "danton_sampler \<Rightarrow> nat \<Rightarrow> nat \<Rightarrow> int" where
  "projectile_loop a j 0 = ENT_PID_NU_TAU"
| "projectile_loop a j (Suc n) =
     (if dval (sampler_weight a j) > 0 then danton_particle_pdg (int j)
      else projectile_loop a (Suc j) n)"

definition danton_run_projectile :: "simulation_context \<Rightarrow> danton_sampler \<Rightarrow> int" where
  "danton_run_projectile context a =
     (if \<not> grammage_scan (api context) then projectile_loop a 0 (nat DANTON_PARTICLE_N)
      else ENT_PID_NU_TAU)"

text \<open>
  The body of the loop of forward events in \<^verbatim>\<open>danton_run\<close>, up to the call of
  \<^verbatim>\<open>transport_forward\<close>: event \<open>i\<close> of \<open>events\<close> draws the direction and the energy,
  builds the state of the primary and clears the latch \<^verbatim>\<open>primary_dumped\<close>. The
  ancestor passed to the transport is a copy of the \<open>base\<close> of this state.
\<close>

definition forward_primary ::
  "simulation_context \<Rightarrow> danton_sampler \<Rightarrow> int \<Rightarrow> int \<Rightarrow> int
     \<Rightarrow> ent_state generic_state \<times> simulation_context" where
  "forward_primary context a projectile i events =
     (let (ct, _, c1) =
            sample_linear context (dval (fst (cos_theta a)), dval (snd (cos_theta a)))
              i events None;
          st = sqrt (1 - ct * ct);
          (en, wgt, c2) =
            sample_log_or_linear c1
              (dval (fst (sampler_energy a)), dval (snd (sampler_energy a))) (Some 1);
          w1 = (case wgt of Some w \<Rightarrow> w | None \<Rightarrow> 1);
          w2 = (if dval (fst (sampler_energy a)) < dval (snd (sampler_energy a))
                then w1 * (dval (snd (sampler_energy a)) * dval (fst (sampler_energy a)) /
                       ((dval (snd (sampler_energy a)) - dval (fst (sampler_energy a)))
                          * en * en))
                else w1);
          crossed = (if decay (api context) then - 1 else 0)
      in (\<lparr>base = \<lparr>distance = 0, grammage = 0, weight = w2,
                   position = (0, 0, - EARTH_RADIUS - 10 ^ 5), direction = (st, 0, ct),
                   pid = projectile, energy = en\<rparr>,
           medium_ix = - 1, density = 0, r_cache = 0, is_tau = False, is_inside = - 1,
           has_crossed = crossed, cross_count = 0\<rparr>,
          c2\<lparr>primary_dumped := False\<rparr>))"

subsection \<open>The engines and the output\<close>

text \<open>
  Modelled from the spec: \<^verbatim>\<open>ent.h\<close>, which declares \<^verbatim>\<open>enum ent_event\<close>, is not among
  the sources. The source tests the event of a transport step against
  \<^verbatim>\<open>ENT_EVENT_NONE\<close>, \<^verbatim>\<open>ENT_EVENT_EXIT\<close> and \<^verbatim>\<open>ENT_EVENT_DECAY_TAU\<close>; every other
  event (the spec's "next event" of the neutrino engine, an interaction) is
  \<open>ENT_EVENT_OTHER\<close>.
\<close>

datatype ent_event = ENT_EVENT_NONE | ENT_EVENT_EXIT | ENT_EVENT_DECAY_TAU | ENT_EVENT_OTHER

text \<open>
  The engines are libraries outside the program. Each call is a function of the state
  \<open>'w\<close> of the engines and of what the program passes; it returns the new state of the
  engines and what the call writes back. ENT and PUMAS draw from the random source of
  the context through the callbacks \<^verbatim>\<open>random_ent\<close> and \<^verbatim>\<open>random_pumas\<close>, and they work on
  the generic state through the callbacks \<^verbatim>\<open>medium_ent\<close> and \<^verbatim>\<open>medium_pumas\<close>: they
  return the random source and the whole generic state. ALOUETTE returns whether it
  succeeded (\<^verbatim>\<open>ALOUETTE_RETURN_SUCCESS\<close>); a product is a PDG code and a momentum.
\<close>

record 'w engines =
  ent_transport ::
    "'w \<Rightarrow> simulation_context \<Rightarrow> ent_state generic_state
       \<Rightarrow> 'w \<times> random_mt_state \<times> ent_state generic_state \<times> ent_state \<times> ent_event"
  pumas_transport ::
    "'w \<Rightarrow> simulation_context \<Rightarrow> pumas_state generic_state
       \<Rightarrow> 'w \<times> random_mt_state \<times> pumas_state generic_state"
  alouette_decay :: "'w \<Rightarrow> int \<Rightarrow> vec3 \<Rightarrow> vec3 \<Rightarrow> 'w \<times> bool"
  alouette_product :: "'w \<Rightarrow> 'w \<times> (int \<times> vec3) option"

text \<open>
  What the \<^verbatim>\<open>format_\<close> functions print, one value per call: \<^verbatim>\<open>format_ancestor\<close> the
  event and the ancestor, \<^verbatim>\<open>format_tau\<close> (two lines) the generation, the PDG code, the
  tau at production and at decay, \<^verbatim>\<open>format_neutrino\<close> the generation and the neutrino,
  \<^verbatim>\<open>format_decay_product\<close> the PDG code and the momentum, \<^verbatim>\<open>format_grammage\<close> the
  cosine and the grammage.
\<close>

datatype record_line =
    Ancestor int ent_state
  | Tau int int pumas_state pumas_state
  | Neutrino int ent_state
  | Decay_product int vec3
  | Grammage real real

text \<open>
  The state that a transport works on: the context, the state of the engines and the
  lines appended to the output so far.
\<close>

record 'w run_state =
  sim_context :: simulation_context
  world :: 'w
  written :: "record_line list"

definition format_ancestor :: "int \<Rightarrow> ent_state \<Rightarrow> 'w run_state \<Rightarrow> 'w run_state" where
  "format_ancestor eventid ancestor rs = rs\<lparr>written := written rs @ [Ancestor eventid ancestor]\<rparr>"

definition format_tau ::
  "int \<Rightarrow> int \<Rightarrow> pumas_state \<Rightarrow> pumas_state \<Rightarrow> 'w run_state \<Rightarrow> 'w run_state" where
  "format_tau generation p production dcy rs =
     rs\<lparr>written := written rs @ [Tau generation p production dcy]\<rparr>"

definition format_neutrino :: "int \<Rightarrow> ent_state \<Rightarrow> 'w run_state \<Rightarrow> 'w run_state" where
  "format_neutrino generation neutrino rs =
     rs\<lparr>written := written rs @ [Neutrino generation neutrino]\<rparr>"

definition format_decay_product :: "int \<Rightarrow> vec3 \<Rightarrow> 'w run_state \<Rightarrow> 'w run_state" where
  "format_decay_product p momentum rs = rs\<lparr>written := written rs @ [Decay_product p momentum]\<rparr>"

text \<open>
  The latch of the primary, which the source writes out at each of its three uses:
  \<^verbatim>\<open>if (!context->primary_dumped) { format_ancestor(...); context->primary_dumped = 1; }\<close>.
\<close>

definition dump_primary :: "int \<Rightarrow> ent_state \<Rightarrow> 'w run_state \<Rightarrow> 'w run_state" where
  "dump_primary eventid ancestor rs =
     (if \<not> primary_dumped (sim_context rs)
      then (format_ancestor eventid ancestor rs)
             \<lparr>sim_context := (sim_context rs)\<lparr>primary_dumped := True\<rparr>\<rparr>
      else rs)"

text \<open>The calls of \<^verbatim>\<open>ent_transport\<close> and \<^verbatim>\<open>pumas_transport\<close> on the run state.\<close>

definition call_ent_transport ::
  "'w engines \<Rightarrow> 'w run_state \<Rightarrow> ent_state generic_state
     \<Rightarrow> 'w run_state \<times> ent_state generic_state \<times> ent_state \<times> ent_event" where
  "call_ent_transport E rs neutrino =
     (let (w, mt, neutrino', product, event) = ent_transport E (world rs) (sim_context rs) neutrino
      in (rs\<lparr>world := w, sim_context := (sim_context rs)\<lparr>random_mt := mt\<rparr>\<rparr>,
          neutrino', product, event))"

definition call_pumas_transport ::
  "'w engines \<Rightarrow> 'w run_state \<Rightarrow> pumas_state generic_state
     \<Rightarrow> 'w run_state \<times> pumas_state generic_state" where
  "call_pumas_transport E rs tau =
     (let (w, mt, tau') = pumas_transport E (world rs) (sim_context rs) tau
      in (rs\<lparr>world := w, sim_context := (sim_context rs)\<lparr>random_mt := mt\<rparr>\<rparr>, tau'))"

subsection \<open>Forward transport\<close>

definition scale :: "real \<Rightarrow> vec3 \<Rightarrow> vec3" where
  "scale a v = (case v of (v0, v1, v2) \<Rightarrow> (a * v0, a * v1, a * v2))"

text \<open>
  \<^verbatim>\<open>copy_neutrino\<close> writes every member of the neutrino: the model returns the state
  written. The last argument is the direction saved at the entry of the transport.
\<close>

definition copy_neutrino ::
  "simulation_context \<Rightarrow> pumas_state \<Rightarrow> int \<Rightarrow> vec3 \<Rightarrow> vec3 \<Rightarrow> ent_state" where
  "copy_neutrino ctx tau p momentum dir0 =
     (let en = sqrt (dot momentum momentum)
      in \<lparr>distance = distance tau, grammage = grammage tau, weight = weight tau,
          position = position tau,
          direction = (if longitudinal (api ctx) then dir0 else scale (1 / en) momentum),
          pid = p, energy = en\<rparr>)"

text \<open>
  A transport that depends on the engines need not return. The loops of the model run
  on fuel: a result \<open>Inl Out_of_fuel\<close> says that the fuel given was not enough. The
  other failure is the read of the sampler through a \<^verbatim>\<open>NULL\<close> pointer, for which the
  program has no defined behaviour; \<^verbatim>\<open>danton_run\<close> excludes it.
\<close>

datatype transport_error = Out_of_fuel | Null_sampler

text \<open>
  What a step of a loop body does next: leave the loop, start the next round, go on, or
  return from the routine.
\<close>

datatype 'a control = Break 'a | Continue 'a | Proceed 'a | Return 'a

text \<open>
  The check for a flux crossing in the loop of \<^verbatim>\<open>transport_forward\<close>, after a step of
  the neutrino engine that gave \<open>event\<close>.
\<close>

definition forward_flux_crossing ::
  "int \<Rightarrow> ent_state \<Rightarrow> int \<Rightarrow> ent_event \<Rightarrow> 'w run_state \<Rightarrow> ent_state generic_state
     \<Rightarrow> ('w run_state \<times> ent_state generic_state) control" where
  "forward_flux_crossing eventid ancestor generation event rs neutrino =
     (if flux_neutrino (sim_context rs) \<and> event = ENT_EVENT_EXIT then
        if has_crossed neutrino \<noteq> 0 then
          let g_state = neutrino\<lparr>cross_count := cross_count neutrino + 1\<rparr>
          in if cross_count g_state = 2
             then Break (format_neutrino generation (base g_state)
                           (dump_primary eventid ancestor rs), g_state)
             else Continue (rs, g_state\<lparr>is_inside := - 1, has_crossed := 0\<rparr>)
        else Proceed (rs, neutrino)
      else Proceed (rs, neutrino))"

text \<open>
  The loop \<^verbatim>\<open>for (trials = 0; trials < 20; trials++)\<close> around \<^verbatim>\<open>alouette_decay\<close>, with
  \<open>n\<close> trials left: it returns the state of the engines and whether a trial succeeded.
  The program does not look at the outcome.
\<close>

primrec alouette_decay_loop ::
  "'w engines \<Rightarrow> int \<Rightarrow> vec3 \<Rightarrow> vec3 \<Rightarrow> nat \<Rightarrow> 'w \<Rightarrow> 'w \<times> bool" where
  "alouette_decay_loop E p momentum pol 0 w = (w, False)"
| "alouette_decay_loop E p momentum pol (Suc n) w =
     (let (w', ok) = alouette_decay E w p momentum pol
      in if ok then (w', True) else alouette_decay_loop E p momentum pol n w')"

text \<open>
  The loop \<^verbatim>\<open>while (alouette_product(&pid, momentum) == ALOUETTE_RETURN_SUCCESS)\<close> of
  \<^verbatim>\<open>transport_forward\<close>. The state of the loop is the run state, \<^verbatim>\<open>nprod\<close> and the two
  candidate neutrinos \<^verbatim>\<open>nu_e\<close> and \<^verbatim>\<open>nu_t\<close> (\<^verbatim>\<open>NULL\<close> is \<open>None\<close>).
\<close>

primrec forward_products ::
  "nat \<Rightarrow> 'w engines \<Rightarrow> int \<Rightarrow> int \<Rightarrow> ent_state \<Rightarrow> int \<Rightarrow> pumas_state
     \<Rightarrow> pumas_state generic_state \<Rightarrow> vec3
     \<Rightarrow> 'w run_state \<Rightarrow> int \<Rightarrow> ent_state option \<Rightarrow> ent_state option
     \<Rightarrow> transport_error + ('w run_state \<times> int \<times> ent_state option \<times> ent_state option)" where
  "forward_products 0 E eventid generation ancestor ppid tau_prod tau_data dir0
     rs nprod nu_e nu_t = Inl Out_of_fuel"
| "forward_products (Suc n) E eventid generation ancestor ppid tau_prod tau_data dir0
     rs nprod nu_e nu_t =
     (let (w, res) = alouette_product E (world rs);
          rs0 = rs\<lparr>world := w\<rparr>
      in case res of
           None \<Rightarrow> Inr (rs0, nprod, nu_e, nu_t)
         | Some (p, momentum) \<Rightarrow>
             if \<bar>p\<bar> = 16 then
               forward_products n E eventid generation ancestor ppid tau_prod tau_data dir0
                 rs0 nprod nu_e
                 (Some (copy_neutrino (sim_context rs0) (base tau_data) p momentum dir0))
             else if p = - 12 then
               forward_products n E eventid generation ancestor ppid tau_prod tau_data dir0
                 rs0 nprod
                 (Some (copy_neutrino (sim_context rs0) (base tau_data) p momentum dir0)) nu_t
             else if \<not> decay (api (sim_context rs0)) \<or> p = 12 \<or> \<bar>p\<bar> = 13 \<or> \<bar>p\<bar> = 14 then
               forward_products n E eventid generation ancestor ppid tau_prod tau_data dir0
                 rs0 nprod nu_e nu_t
             else if medium_ix tau_data < 10 then
               forward_products n E eventid generation ancestor ppid tau_prod tau_data dir0
                 rs0 nprod nu_e nu_t
             else
               let rs1 = (if nprod = 0
                          then format_tau generation ppid tau_prod (base tau_data)
                                 (dump_primary eventid ancestor rs0)
                          else rs0);
                   rs2 = format_decay_product p momentum rs1
               in forward_products n E eventid generation ancestor ppid tau_prod tau_data dir0
                    rs2 (nprod + 1) nu_e nu_t)"

text \<open>
  The generic state of a neutrino daughter, as the source sets it before the recursive
  call: \<^verbatim>\<open>memset\<close> to zero, then the flux-crossing data. In flux mode the count of
  crossings starts at \<open>1\<close> when the tau decayed at or below the altitude of the flux
  boundary, read from the sampler.
\<close>

definition daughter_state ::
  "simulation_context \<Rightarrow> pumas_state generic_state \<Rightarrow> ent_state
     \<Rightarrow> transport_error + ent_state generic_state" where
  "daughter_state ctx tau_data nu =
     (let zero = \<lparr>base = nu, medium_ix = 0, density = 0, r_cache = 0, is_tau = False,
                  is_inside = 0, has_crossed = 0, cross_count = 0\<rparr>
      in if flux_neutrino ctx then
           case sampler (api ctx) of
             None \<Rightarrow> Inl Null_sampler
           | Some s \<Rightarrow>
               Inr (zero\<lparr>is_inside := - 1, has_crossed := 0,
                      cross_count :=
                        (if r_cache tau_data
                              \<le> EARTH_RADIUS + dval (fst (altitude (sampler_api s))) + FLT_EPSILON
                         then 1 else 0)\<rparr>)
         else Inr (zero\<lparr>has_crossed := - 1\<rparr>))"

text \<open>
  The recursive call for a candidate daughter: nothing for \<^verbatim>\<open>NULL\<close>. The argument
  \<open>recurse\<close> stands for \<^verbatim>\<open>transport_forward\<close> with the context, the event and the
  ancestor of the caller; the state that the call leaves in the daughter is dropped.
\<close>

definition forward_daughter ::
  "('w run_state \<Rightarrow> ent_state generic_state \<Rightarrow> int
      \<Rightarrow> transport_error + ('w run_state \<times> ent_state generic_state))
     \<Rightarrow> pumas_state generic_state \<Rightarrow> int \<Rightarrow> ent_state option \<Rightarrow> 'w run_state
     \<Rightarrow> transport_error + 'w run_state" where
  "forward_daughter recurse tau_data generation nu rs =
     (case nu of
        None \<Rightarrow> Inr rs
      | Some nu' \<Rightarrow>
          (case daughter_state (sim_context rs) tau_data nu' of
             Inl e \<Rightarrow> Inl e
           | Inr nu_data \<Rightarrow>
               (case recurse rs nu_data generation of
                  Inl e \<Rightarrow> Inl e
                | Inr (rs', _) \<Rightarrow> Inr rs')))"

text \<open>
  The initialiser of \<^verbatim>\<open>tau_data\<close> in \<^verbatim>\<open>transport_forward\<close>, with the position and
  the direction that the two \<^verbatim>\<open>memcpy\<close> after it take from the product.
\<close>

definition tau_data_init ::
  "simulation_context \<Rightarrow> real \<Rightarrow> ent_state \<Rightarrow> pumas_state generic_state" where
  "tau_data_init ctx tau_mass product =
     \<lparr>base = \<lparr>distance = distance product, grammage = grammage product,
              weight = weight product, position = position product,
              direction = direction product,
              charge = (if pid product > 0 then - 1 else 1),
              kinetic = energy product - tau_mass, time = 0, decayed = False\<rparr>,
      medium_ix = - 1, density = 0, r_cache = 0, is_tau = True, is_inside = - 1,
      has_crossed = (if flux_neutrino ctx then - 1 else 0), cross_count = 0\<rparr>"

text \<open>
  The body of \<^verbatim>\<open>if (abs(product.pid) == ENT_PID_TAU)\<close> in the loop of
  \<^verbatim>\<open>transport_forward\<close>: the transport of the tau by PUMAS, its decay by ALOUETTE and
  the recursion on the neutrino daughters, or the flux of taus. It returns the run
  state and the generation, which a decay increments. \<open>n\<close> is the fuel of the loop over
  the products.
\<close>

definition forward_tau ::
  "('w run_state \<Rightarrow> ent_state generic_state \<Rightarrow> int
      \<Rightarrow> transport_error + ('w run_state \<times> ent_state generic_state))
     \<Rightarrow> nat \<Rightarrow> 'w engines \<Rightarrow> real \<Rightarrow> int \<Rightarrow> ent_state \<Rightarrow> vec3
     \<Rightarrow> 'w run_state \<Rightarrow> ent_state \<Rightarrow> int \<Rightarrow> transport_error + ('w run_state \<times> int)" where
  "forward_tau recurse n E tau_mass eventid ancestor dir0 rs product generation =
     (let tau_data0 = tau_data_init (sim_context rs) tau_mass product;
          tau_prod = base tau_data0;
          (rs1, tau_data) = call_pumas_transport E rs tau_data0;
          tau = base tau_data
      in if decayed tau then
           let p = sqrt (kinetic tau * (kinetic tau + 2 * tau_mass));
               momentum = scale p (direction tau);
               (w, _) = alouette_decay_loop E (pid product) momentum (direction tau) 20
                          (world rs1);
               rs2 = rs1\<lparr>world := w\<rparr>
           in case forward_products n E eventid generation ancestor (pid product) tau_prod
                     tau_data dir0 rs2 0 None None of
                Inl e \<Rightarrow> Inl e
              | Inr (rs3, nprod, nu_e, nu_t) \<Rightarrow>
                  let generation' = generation + 1
                  in (case forward_daughter recurse tau_data generation' nu_e rs3 of
                        Inl e \<Rightarrow> Inl e
                      | Inr rs4 \<Rightarrow>
                          (case forward_daughter recurse tau_data generation' nu_t rs4 of
                             Inl e \<Rightarrow> Inl e
                           | Inr rs5 \<Rightarrow> Inr (rs5, generation')))
         else if has_crossed tau_data = 1 then
           Inr (format_tau generation (pid product) tau_prod tau
                  (dump_primary eventid ancestor rs1), generation)
         else Inr (rs1, generation))"

text \<open>
  The two slots after a step of the neutrino engine that is not an exit: in
  longitudinal mode both directions are reset to the direction at the entry; then, if
  the engine left a tau in the neutrino, the neutrino and the product are exchanged.
\<close>

definition forward_slots ::
  "simulation_context \<Rightarrow> vec3 \<Rightarrow> ent_state generic_state \<Rightarrow> ent_state
     \<Rightarrow> ent_state generic_state \<times> ent_state" where
  "forward_slots ctx dir0 neutrino product =
     (let (nu3, product3) =
            (if longitudinal (api ctx)
             then (neutrino\<lparr>base := (base neutrino)\<lparr>direction := dir0\<rparr>\<rparr>,
                   product\<lparr>direction := dir0\<rparr>)
             else (neutrino, product))
      in if \<bar>pid (base nu3)\<bar> = ENT_PID_TAU
         then (nu3\<lparr>base := product3\<rparr>, base nu3)
         else (nu3, product3))"

text \<open>
  The entry of \<^verbatim>\<open>transport_forward\<close>: a neutrino of another kind returns at once;
  otherwise the direction is saved (the source saves it in longitudinal mode and reads
  it in that mode only) and the loop starts. The argument \<open>loop\<close> stands for the loop.
\<close>

definition forward_entry ::
  "(vec3 \<Rightarrow> 'w run_state \<Rightarrow> ent_state generic_state \<Rightarrow> int
      \<Rightarrow> transport_error + ('w run_state \<times> ent_state generic_state))
     \<Rightarrow> 'w run_state \<Rightarrow> ent_state generic_state \<Rightarrow> int
     \<Rightarrow> transport_error + ('w run_state \<times> ent_state generic_state)" where
  "forward_entry loop rs neutrino generation =
     (if pid (base neutrino) \<noteq> ENT_PID_NU_BAR_E \<and> \<bar>pid (base neutrino)\<bar> \<noteq> ENT_PID_NU_TAU
      then Inr (rs, neutrino)
      else loop (direction (base neutrino)) rs neutrino generation)"

text \<open>
  One round of the loop \<^verbatim>\<open>for (;;)\<close> of \<^verbatim>\<open>transport_forward\<close>. The argument \<open>loop\<close>
  stands for the rounds that follow, here and in the recursive calls.
\<close>

definition forward_round ::
  "(vec3 \<Rightarrow> 'w run_state \<Rightarrow> ent_state generic_state \<Rightarrow> int
      \<Rightarrow> transport_error + ('w run_state \<times> ent_state generic_state))
     \<Rightarrow> nat \<Rightarrow> 'w engines \<Rightarrow> real \<Rightarrow> int \<Rightarrow> ent_state \<Rightarrow> vec3
     \<Rightarrow> 'w run_state \<Rightarrow> ent_state generic_state \<Rightarrow> int
     \<Rightarrow> transport_error + ('w run_state \<times> ent_state generic_state)" where
  "forward_round loop n E tau_mass eventid ancestor dir0 rs neutrino generation =
     (let (rs1, nu1, product1, event) = call_ent_transport E rs neutrino
      in if energy (base nu1) \<le> energy_cut (sim_context rs1) + FLT_EPSILON then Inr (rs1, nu1)
         else
           case forward_flux_crossing eventid ancestor generation event rs1 nu1 of
             Break (rs2, nu2) \<Rightarrow> Inr (rs2, nu2)
           | Return (rs2, nu2) \<Rightarrow> Inr (rs2, nu2)
           | Continue (rs2, nu2) \<Rightarrow> loop dir0 rs2 nu2 generation
           | Proceed (rs2, nu2) \<Rightarrow>
               if event = ENT_EVENT_EXIT then Inr (rs2, nu2)
               else
                 let (nu4, product4) = forward_slots (sim_context rs2) dir0 nu2 product1
                 in case (if \<bar>pid product4\<bar> = ENT_PID_TAU
                          then forward_tau (forward_entry loop) n E tau_mass eventid ancestor
                                 dir0 rs2 product4 generation
                          else Inr (rs2, generation)) of
                      Inl e \<Rightarrow> Inl e
                    | Inr (rs5, generation') \<Rightarrow>
                        if pid (base nu4) \<noteq> ENT_PID_NU_BAR_E \<and>
                           \<bar>pid (base nu4)\<bar> \<noteq> ENT_PID_NU_TAU
                        then Inr (rs5, nu4)
                        else loop dir0 rs5 nu4 generation')"

text \<open>
  The loop of \<^verbatim>\<open>transport_forward\<close> on fuel: each round, and each level of the
  recursion, takes one unit.
\<close>

primrec forward_loop ::
  "nat \<Rightarrow> 'w engines \<Rightarrow> real \<Rightarrow> int \<Rightarrow> ent_state \<Rightarrow> vec3
     \<Rightarrow> 'w run_state \<Rightarrow> ent_state generic_state \<Rightarrow> int
     \<Rightarrow> transport_error + ('w run_state \<times> ent_state generic_state)" where
  "forward_loop 0 E tau_mass eventid ancestor dir0 rs neutrino generation = Inl Out_of_fuel"
| "forward_loop (Suc n) E tau_mass eventid ancestor dir0 rs neutrino generation =
     forward_round (forward_loop n E tau_mass eventid ancestor) n E tau_mass eventid ancestor
       dir0 rs neutrino generation"

text \<open>
  \<^verbatim>\<open>transport_forward\<close>, the forward transport routine, recursive. It works on the
  context, on the engines, on the output and on the neutrino: the model returns the run
  state and the neutrino.
\<close>

definition transport_forward ::
  "nat \<Rightarrow> 'w engines \<Rightarrow> real \<Rightarrow> 'w run_state \<Rightarrow> ent_state generic_state \<Rightarrow> int \<Rightarrow> int
     \<Rightarrow> ent_state \<Rightarrow> transport_error + ('w run_state \<times> ent_state generic_state)" where
  "transport_forward n E tau_mass rs neutrino eventid generation ancestor =
     forward_entry (forward_loop n E tau_mass eventid ancestor) rs neutrino generation"

subsection \<open>Backward transport\<close>

text \<open>
  Of \<^verbatim>\<open>transport_backward\<close> the model holds the two parts that the properties below
  are about: the part for a tau up to the end of its backward propagation, and the
  decay of the final tau in decay mode, at the end of the routine. The generation of the
  production vertex and the backward transport of the neutrino, between the two, are
  not modelled. \<^verbatim>\<open>tau_ctau0\<close> is the global that the initialisation of PUMAS sets, as
  \<^verbatim>\<open>tau_mass\<close>.

  The BMC weight for the decay of the tau, applied at the entry:
  \<^verbatim>\<open>if (context->api.decay || (generation > 1)) { ... tau->weight *= tau_mass / (tau_ctau0 * Pf); }\<close>.
\<close>

definition backward_decay_weight ::
  "real \<Rightarrow> real \<Rightarrow> simulation_context \<Rightarrow> int \<Rightarrow> pumas_state \<Rightarrow> pumas_state" where
  "backward_decay_weight tau_mass tau_ctau0 ctx generation tau =
     (if decay (api ctx) \<or> generation > 1 then
        let Pf = sqrt (kinetic tau * (kinetic tau + 2 * tau_mass))
        in tau\<lparr>weight := weight tau * (tau_mass / (tau_ctau0 * Pf))\<rparr>
      else tau)"

text \<open>
  The loop \<^verbatim>\<open>for (;;)\<close> that propagates the tau backward, on fuel. \<open>Break\<close> is the
  \<^verbatim>\<open>break\<close> of the source, with the grammage \<^verbatim>\<open>x0\<close> of the last round, which the code
  after the loop reads; \<open>Return\<close> is the \<^verbatim>\<open>return\<close> out of \<^verbatim>\<open>transport_backward\<close>.
\<close>

primrec backward_tau_loop ::
  "nat \<Rightarrow> 'w engines \<Rightarrow> real \<Rightarrow> real \<Rightarrow> int \<Rightarrow> 'w run_state \<Rightarrow> pumas_state generic_state
     \<Rightarrow> transport_error + ('w run_state \<times> pumas_state generic_state \<times> real) control" where
  "backward_tau_loop 0 E tau_mass tau_ctau0 generation rs current = Inl Out_of_fuel"
| "backward_tau_loop (Suc n) E tau_mass tau_ctau0 generation rs current =
     (let lambda0 = 3 * 10 ^ 7;
          p1 = 1 / 10;
          x0 = grammage (base current);
          (u, c1) = random_uniform01 (sim_context rs);
          c2 = c1\<lparr>pumas_grammage_max := x0 - lambda0 * ln u\<rparr>;
          (rs1, g) = call_pumas_transport E (rs\<lparr>sim_context := c2\<rparr>)
                       (current\<lparr>base := (base current)\<lparr>decayed := False\<rparr>\<rparr>);
          tau = base g
      in if (\<not> decayed tau \<and>
               grammage tau < pumas_grammage_max (sim_context rs1) - FLT_EPSILON) \<or>
            kinetic tau + tau_mass \<ge> energy_cut (sim_context rs1) - FLT_EPSILON \<or>
            weight tau \<le> 0
         then Inr (Return (rs1, g, x0))
         else if generation > 1 then Inr (Break (rs1, g, x0))
         else
           let b = - dot (position tau) (direction tau);
               d2 = b * b + EARTH_RADIUS * EARTH_RADIUS - r_cache g * r_cache g
           in if d2 \<le> 0 \<or> sqrt d2 > - b then Inr (Break (rs1, g, x0))
              else if medium_ix g < 10 \<or> density g \<le> 0 then Inr (Break (rs1, g, x0))
              else
                let Pf = sqrt (kinetic tau * (kinetic tau + 2 * tau_mass));
                    lD = tau_ctau0 * Pf / tau_mass;
                    lB = lambda0 / density g;
                    pD = lB / (lB + lD);
                    pB = lD / (lB + lD)
                in if pD \<le> 0 \<or> pB \<le> 0 then Inr (Break (rs1, g, x0))
                   else
                     let (u', c3) = random_uniform01 (sim_context rs1);
                         rs2 = rs1\<lparr>sim_context := c3\<rparr>
                     in if u' < p1
                        then Inr (Break (rs2, g\<lparr>base := tau\<lparr>weight := weight tau * (pD / p1)\<rparr>\<rparr>,
                                    x0))
                        else backward_tau_loop n E tau_mass tau_ctau0 generation rs2
                               (g\<lparr>base := tau\<lparr>weight := weight tau * (pB / (1 - p1))\<rparr>\<rparr>))"

text \<open>
  The part of \<^verbatim>\<open>transport_backward\<close> for \<^verbatim>\<open>current->is_tau\<close>, from the entry of the
  routine to the end of the loop: the weight, then the backward propagation.
\<close>

definition backward_tau ::
  "nat \<Rightarrow> 'w engines \<Rightarrow> real \<Rightarrow> real \<Rightarrow> int \<Rightarrow> 'w run_state \<Rightarrow> pumas_state generic_state
     \<Rightarrow> transport_error + ('w run_state \<times> pumas_state generic_state \<times> real) control" where
  "backward_tau n E tau_mass tau_ctau0 generation rs current =
     backward_tau_loop n E tau_mass tau_ctau0 generation rs
       (current\<lparr>base :=
          backward_decay_weight tau_mass tau_ctau0 (sim_context rs) generation (base current)\<rparr>)"

text \<open>
  The loop \<^verbatim>\<open>while (alouette_product(&pid1, momentum) == ALOUETTE_RETURN_SUCCESS)\<close> at
  the end of \<^verbatim>\<open>transport_backward\<close>. \<open>state\<close> is the primary neutrino, \<open>p\<close> the PDG code
  of the final tau. The first test of the source is \<^verbatim>\<open>abs(pid1 == 12)\<close>: the absolute
  value of a comparison.
\<close>

primrec backward_products ::
  "nat \<Rightarrow> 'w engines \<Rightarrow> int \<Rightarrow> int \<Rightarrow> ent_state \<Rightarrow> int \<Rightarrow> pumas_state generic_state
     \<Rightarrow> pumas_state generic_state \<Rightarrow> 'w run_state \<Rightarrow> int \<Rightarrow> transport_error + 'w run_state" where
  "backward_products 0 E eventid generation state p tau_at_production final rs nprod =
     Inl Out_of_fuel"
| "backward_products (Suc n) E eventid generation state p tau_at_production final rs nprod =
     (let (w, res) = alouette_product E (world rs);
          rs0 = rs\<lparr>world := w\<rparr>
      in case res of
           None \<Rightarrow> Inr rs0
         | Some (pid1, momentum) \<Rightarrow>
             if \<bar>if pid1 = 12 then 1 else 0 :: int\<bar> \<noteq> 0 \<or> \<bar>pid1\<bar> = 13 \<or> \<bar>pid1\<bar> = 14 \<or>
                \<bar>pid1\<bar> = 16
             then backward_products n E eventid generation state p tau_at_production final
                    rs0 nprod
             else
               let rs1 = (if nprod = 0
                          then format_tau generation p (base tau_at_production) (base final)
                                 (format_ancestor eventid state rs0)
                          else rs0);
                   rs2 = format_decay_product pid1 momentum rs1
               in backward_products n E eventid generation state p tau_at_production final
                    rs2 (nprod + 1))"

text \<open>
  The end of \<^verbatim>\<open>transport_backward\<close> in decay mode: the decay of the final tau by
  ALOUETTE and the output of its products.
\<close>

definition backward_decay ::
  "nat \<Rightarrow> 'w engines \<Rightarrow> real \<Rightarrow> int \<Rightarrow> int \<Rightarrow> ent_state \<Rightarrow> pumas_state generic_state
     \<Rightarrow> pumas_state generic_state \<Rightarrow> 'w run_state \<Rightarrow> transport_error + 'w run_state" where
  "backward_decay n E tau_mass eventid generation state tau_at_production final rs =
     (let p0 = (if charge (base final) < 0 then ENT_PID_TAU else ENT_PID_TAU_BAR);
          p = sqrt (kinetic (base final) * (kinetic (base final) + 2 * tau_mass));
          momentum = scale p (direction (base final));
          (w, _) = alouette_decay_loop E p0 momentum (direction (base final)) 20 (world rs)
      in backward_products n E eventid generation state p0 tau_at_production final
           (rs\<lparr>world := w\<rparr>) 0)"

subsection \<open>Engines for counting and for concrete runs\<close>


text \<open>
  The two counters in a run state, and a run state for the engines \<open>counting E\<close> with
  \<open>k\<close> calls of \<^verbatim>\<open>alouette_decay\<close> and \<open>d\<close> tau decays counted.
\<close>

definition decay_calls :: "('w \<times> nat \<times> nat) run_state \<Rightarrow> nat" where
  "decay_calls rs = fst (snd (world rs))"

definition tau_decays :: "('w \<times> nat \<times> nat) run_state \<Rightarrow> nat" where
  "tau_decays rs = snd (snd (world rs))"

definition counted :: "'w run_state \<Rightarrow> nat \<Rightarrow> nat \<Rightarrow> ('w \<times> nat \<times> nat) run_state" where
  "counted rs k d = \<lparr>sim_context = sim_context rs, world = (world rs, k, d), written = written rs\<rparr>"


text \<open>
  Engines for concrete runs. Their state is the stack of the products of ALOUETTE,
  which \<^verbatim>\<open>alouette_product\<close> pops. \<open>exit_engines\<close>: the neutrino reaches the flux boundary
  at each step (\<^verbatim>\<open>medium\<close> sets \<^verbatim>\<open>has_crossed\<close> and the step ends with the exit).
  \<open>tau_engines ok\<close>: the neutrino interacts and leaves a tau in the main slot and a
  hadron (PDG code \<open>100\<close>) as the product, the tau decays in flight in the medium where
  it is, and \<^verbatim>\<open>alouette_decay\<close> returns \<open>ok\<close>, leaving the stack as it is.
\<close>

definition exit_engines :: "(int \<times> vec3) list engines" where
  "exit_engines =
     \<lparr>ent_transport = (\<lambda>w c s.
        (w, random_mt c, s\<lparr>medium_ix := - 1, has_crossed := 1\<rparr>, base s, ENT_EVENT_EXIT)),
      pumas_transport = (\<lambda>w c s. (w, random_mt c, s)),
      alouette_decay = (\<lambda>w p momentum pol. (w, True)),
      alouette_product = (\<lambda>w. case w of [] \<Rightarrow> ([], None) | x # xs \<Rightarrow> (xs, Some x))\<rparr>"

definition tau_engines :: "bool \<Rightarrow> (int \<times> vec3) list engines" where
  "tau_engines ok =
     \<lparr>ent_transport = (\<lambda>w c s.
        (w, random_mt c, s\<lparr>base := (base s)\<lparr>pid := 15\<rparr>\<rparr>, (base s)\<lparr>pid := 100\<rparr>,
         ENT_EVENT_OTHER)),
      pumas_transport = (\<lambda>w c s. (w, random_mt c, s\<lparr>base := (base s)\<lparr>decayed := True\<rparr>\<rparr>)),
      alouette_decay = (\<lambda>w p momentum pol. (w, ok)),
      alouette_product = (\<lambda>w. case w of [] \<Rightarrow> ([], None) | x # xs \<Rightarrow> (xs, Some x))\<rparr>"


subsection \<open>Concrete inputs\<close>

text \<open>
  A sampler for a forward flux of tau neutrinos, as a caller fills it in after
  \<^verbatim>\<open>danton_sampler_create\<close>: altitude \<open>{0., 0.}\<close>, \<open>cos \<theta>\<close> in \<open>{0., 1.}\<close>, elevation
  \<open>{0., 0.}\<close>, energy in \<open>{1E+02, 1E+12}\<close> and the weight \<open>1.\<close> for
  \<^verbatim>\<open>DANTON_PARTICLE_NU_TAU\<close>. The bit patterns are those of \<open>1.\<close>, \<open>1E+02\<close> and
  \<open>1E+12\<close>.
\<close>

definition flux_sampler :: event_sampler where
  "flux_sampler =
     danton_sampler_create\<lparr>sampler_api :=
       \<lparr>altitude = (0, 0), cos_theta = (0, 0x3FF0000000000000), elevation = (0, 0),
        sampler_energy = (0x4059000000000000, 0x426D1A94A2000000),
        sampler_weight = (\<lambda>_. 0)(5 := 0x3FF0000000000000)\<rparr>\<rparr>"

text \<open>
  The same sampler after a successful update and a later write of \<open>50.\<close> (bit pattern
  \<open>0x4049000000000000\<close>) to \<^verbatim>\<open>energy[0]\<close>, with no second update.
\<close>

definition stale_sampler :: event_sampler where
  "stale_sampler =
     (let s = snd (danton_sampler_update flux_sampler)
      in s\<lparr>sampler_api := (sampler_api s)
           \<lparr>sampler_energy := (0x4049000000000000, 0x426D1A94A2000000)\<rparr>\<rparr>)"

text \<open>The sampler of a monokinetic beam: both energy bounds are \<open>1E+12\<close>.\<close>

definition mono_sampler :: danton_sampler where
  "mono_sampler =
     (sampler_api flux_sampler)\<lparr>sampler_energy := (0x426D1A94A2000000, 0x426D1A94A2000000)\<rparr>"

text \<open>
  A context as \<^verbatim>\<open>danton_context_create\<close> leaves it, set to forward flux mode, with a
  sampler.
\<close>

definition flux_context :: "event_sampler \<Rightarrow> simulation_context" where
  "flux_context s =
     \<lparr>api = \<lparr>forward = True, longitudinal = False, decay = False, grammage_scan = False,
        sampler = Some s, output_file = None\<rparr>,
      pumas_kinetic_limit = 0, pumas_grammage_max = 0, energy_cut = - 1,
      primary_dumped = False,
      flux_neutrino = False, random_mt = \<lparr>mt_index = 624, mt_data = (\<lambda>_. 0)\<rparr>\<rparr>"

text \<open>
  A tau at the radius of 50000 km, as the backward loop of \<^verbatim>\<open>danton_run\<close> builds it
  when the altitude drawn is 43629 km (the update of the sampler sets no upper bound on
  the altitude).
\<close>

definition far_tau :: "pumas_state generic_state" where
  "far_tau =
     \<lparr>base = \<lparr>distance = 0, grammage = 0, weight = 1, position = (0, 0, 50000000),
        direction = (0, 0, 1), charge = - 1, kinetic = 10 ^ 9, time = 0, decayed = False\<rparr>,
      medium_ix = - 1, density = 0, r_cache = 0, is_tau = True, is_inside = - 1,
      has_crossed = - 1, cross_count = 0\<rparr>"

text \<open>
  A tau neutrino at the same place, going away from the Earth, with the check of the
  flux boundary on (\<^verbatim>\<open>has_crossed\<close> is \<open>0\<close>).
\<close>

definition far_nu :: "ent_state generic_state" where
  "far_nu =
     \<lparr>base = \<lparr>distance = 0, grammage = 0, weight = 1, position = (0, 0, 50000000),
        direction = (0, 0, 1), pid = 16, energy = 1000\<rparr>,
      medium_ix = 3, density = 0, r_cache = 0, is_tau = False, is_inside = 0,
      has_crossed = 0, cross_count = 0\<rparr>"

text \<open>
  The context of a forward run for the flux of tau neutrinos, as \<^verbatim>\<open>danton_run\<close>
  configures it: the flux of neutrinos is requested and the cut is \<open>energy[0]\<close>.
  \<open>armed_run\<close> is the run state at the start of an event. \<open>nu_tau_at en k\<close> is a tau
  neutrino of energy \<open>en\<close> armed for the flux crossing, with \<open>k\<close> crossings counted.
\<close>

definition armed_context :: simulation_context where
  "armed_context =
     (flux_context (snd (danton_sampler_update flux_sampler)))
       \<lparr>flux_neutrino := True, energy_cut := 100\<rparr>"

definition armed_run :: "(int \<times> vec3) list run_state" where
  "armed_run = \<lparr>sim_context = armed_context, world = [], written = []\<rparr>"

definition nu_tau_at :: "real \<Rightarrow> int \<Rightarrow> ent_state generic_state" where
  "nu_tau_at en crossings =
     \<lparr>base = \<lparr>distance = 0, grammage = 0, weight = 1, position = (0, 0, 6371000),
        direction = (0, 0, 1), pid = 16, energy = en\<rparr>,
      medium_ix = 0, density = 0, r_cache = 0, is_tau = False, is_inside = - 1,
      has_crossed = 0, cross_count = crossings\<rparr>"

text \<open>
  The context and the run state of a forward run in decay mode, where the sampler asks
  for taus (the weight \<open>1.\<close>
  for \<^verbatim>\<open>DANTON_PARTICLE_TAU\<close>) at altitudes in \<open>{0., 1E+03}\<close>, with two products on the
  stack of ALOUETTE: a charged pion (PDG code \<open>211\<close>) and a tau neutrino. \<open>tau_in i\<close> is
  a tau whose cached medium index is \<open>i\<close>.
\<close>

definition decay_sampler :: event_sampler where
  "decay_sampler =
     danton_sampler_create\<lparr>sampler_api :=
       \<lparr>altitude = (0, 0x408F400000000000), cos_theta = (0, 0x3FF0000000000000),
        elevation = (0, 0), sampler_energy = (0x4059000000000000, 0x426D1A94A2000000),
        sampler_weight = (\<lambda>_. 0)(7 := 0x3FF0000000000000)\<rparr>\<rparr>"

definition decay_context :: simulation_context where
  "decay_context =
     (flux_context (snd (danton_sampler_update decay_sampler)))
       \<lparr>api := (api (flux_context (snd (danton_sampler_update decay_sampler))))\<lparr>decay := True\<rparr>,
        energy_cut := 100\<rparr>"

definition decay_run :: "(int \<times> vec3) list run_state" where
  "decay_run =
     \<lparr>sim_context = decay_context, world = [(211, (0, 0, 5)), (16, (0, 0, 3))], written = []\<rparr>"


definition tau_in :: "int \<Rightarrow> pumas_state generic_state" where
  "tau_in i = far_tau\<lparr>medium_ix := i\<rparr>"

text \<open>
  A backward run for the flux of taus (no decay, cut at \<open>10\<^sup>1\<^sup>2\<close> GeV) and the tau
  that such a run starts from, at the surface of the Earth, with a kinetic energy of
  \<open>10\<^sup>9\<close> GeV and the weight \<open>1\<close>.
\<close>

definition tau_flux_run :: "(int \<times> vec3) list run_state" where
  "tau_flux_run =
     \<lparr>sim_context =
        (flux_context (snd (danton_sampler_update flux_sampler)))
          \<lparr>api := (api (flux_context (snd (danton_sampler_update flux_sampler))))
                    \<lparr>forward := False\<rparr>,
           energy_cut := 10 ^ 12\<rparr>,
      world = [], written = []\<rparr>"

definition surface_tau :: "pumas_state generic_state" where
  "surface_tau =
     \<lparr>base = \<lparr>distance = 0, grammage = 0, weight = 1, position = (0, 0, 6371000),
        direction = (0, 0, 1), charge = - 1, kinetic = 10 ^ 9, time = 0, decayed = False\<rparr>,
      medium_ix = - 1, density = 0, r_cache = 0, is_tau = True, is_inside = - 1,
      has_crossed = - 1, cross_count = 0\<rparr>"

section \<open>Properties\<close>

subsection \<open>Particle tables\<close>

lemma set_pdg_table: "set pdg_table = {- 16, - 14, - 12, 12, 14, 16, - 15, 15}"
  by (simp add: pdg_table_def ENT_PID_defs)

lemma index_cases:
  fixes i :: int
  assumes "0 \<le> i" "i < 8"
  shows "i = 0 \<or> i = 1 \<or> i = 2 \<or> i = 3 \<or> i = 4 \<or> i = 5 \<or> i = 6 \<or> i = 7"
  using assms by arith

text \<open>
  Claim C10. \<^verbatim>\<open>danton_particle_pdg\<close> and \<^verbatim>\<open>danton_particle_index\<close> are inverse to
  each other on their valid ranges: an index \<open>i\<close> with \<open>0 \<le> i < DANTON_PARTICLE_N\<close> is
  found again from its PDG code, and a supported PDG code (one of the table) is found
  again from its index. An index out of range gives the PDG code \<open>0\<close>, and a PDG code
  that is not supported gives \<^verbatim>\<open>DANTON_PARTICLE_UNKNOWN\<close>.
\<close>

theorem particle_pdg_index_inverse:
  "(0 \<le> i \<and> i < DANTON_PARTICLE_N \<longrightarrow> danton_particle_index (danton_particle_pdg i) = i) \<and>
   (p \<in> set pdg_table \<longrightarrow> danton_particle_pdg (danton_particle_index p) = p) \<and>
   (i < 0 \<or> DANTON_PARTICLE_N \<le> i \<longrightarrow> danton_particle_pdg i = 0) \<and>
   (p \<notin> set pdg_table \<longrightarrow> danton_particle_index p = DANTON_PARTICLE_UNKNOWN)"
proof (intro conjI impI)
  assume "0 \<le> i \<and> i < DANTON_PARTICLE_N"
  then have "i = 0 \<or> i = 1 \<or> i = 2 \<or> i = 3 \<or> i = 4 \<or> i = 5 \<or> i = 6 \<or> i = 7"
    using index_cases [of i] by (simp add: DANTON_PARTICLE_N_def)
  then show "danton_particle_index (danton_particle_pdg i) = i"
    by (elim disjE)
      (simp_all add: danton_particle_pdg_def danton_particle_index_def pdg_table_def
        DANTON_PARTICLE_defs ENT_PID_defs)
next
  assume "p \<in> set pdg_table"
  then have "p = - 16 \<or> p = - 14 \<or> p = - 12 \<or> p = 12 \<or> p = 14 \<or> p = 16 \<or> p = - 15 \<or> p = 15"
    by (simp add: set_pdg_table)
  then show "danton_particle_pdg (danton_particle_index p) = p"
    by (elim disjE)
      (simp_all add: danton_particle_pdg_def danton_particle_index_def pdg_table_def
        DANTON_PARTICLE_defs ENT_PID_defs)
next
  assume "i < 0 \<or> DANTON_PARTICLE_N \<le> i"
  then show "danton_particle_pdg i = 0"
    by (auto simp add: danton_particle_pdg_def)
next
  assume "p \<notin> set pdg_table"
  then show "danton_particle_index p = DANTON_PARTICLE_UNKNOWN"
    by (simp add: set_pdg_table danton_particle_index_def ENT_PID_defs)
qed

theorem particle_pdg_index_inverse_witness:
  "danton_particle_index (danton_particle_pdg 6) = 6 \<and>
   danton_particle_pdg (danton_particle_index (- 12)) = - 12 \<and>
   danton_particle_pdg 8 = 0 \<and>
   danton_particle_index 11 = DANTON_PARTICLE_UNKNOWN"
  using particle_pdg_index_inverse [of 6 "- 12"] particle_pdg_index_inverse [of 8 11]
  by (simp add: set_pdg_table DANTON_PARTICLE_N_def)

subsection \<open>The geometry\<close>

lemma ri_length: "length ri = 16"
  by (simp add: ri_def)

lemma ri_14: "ri ! 14 = GEO_ORBIT"
  by (simp add: ri_def)

lemma shell_step_floor: "1 / 1000 \<le> shell_step i r b"
  by (simp add: shell_step_def Let_def)

text \<open>
  The loop either stores a shell index, with a step no less than the floor, or leaves
  the index and the step as they were set at the entry of \<^verbatim>\<open>medium\<close>.
\<close>

lemma medium_loop_result:
  "medium_loop i pos dir r state = (step, state') \<Longrightarrow> medium_ix state = - 1 \<Longrightarrow>
   (0 \<le> medium_ix state' \<and> medium_ix state' < 15 \<and> 1 / 1000 \<le> step) \<or>
   (medium_ix state' = - 1 \<and> step = 0)"
proof (induction i pos dir r state rule: medium_loop.induct)
  case (1 i pos dir r state)
  show ?case
  proof (cases "i < length ri - 1")
    case False
    with "1.prems" show ?thesis by (simp add: medium_loop.simps [of i])
  next
    case True
    show ?thesis
    proof (cases "r \<le> ri ! i")
      case True
      with \<open>i < length ri - 1\<close> "1.prems" show ?thesis
        using shell_step_floor [of i r "dot pos dir"]
        by (auto simp add: ri_length medium_loop.simps [of i])
    next
      case False
      with \<open>i < length ri - 1\<close> "1.prems" "1.IH" show ?thesis
        by (simp add: medium_loop.simps [of i])
    qed
  qed
qed

text \<open>Within the geostationary radius the loop finds a shell.\<close>

lemma medium_loop_finds_shell:
  "i \<le> 14 \<Longrightarrow> r \<le> GEO_ORBIT \<Longrightarrow> 0 \<le> medium_ix (snd (medium_loop i pos dir r state))"
proof (induction i pos dir r state rule: medium_loop.induct)
  case (1 i pos dir r state)
  show ?case
  proof (cases "r \<le> ri ! i")
    case True
    with "1.prems" show ?thesis by (simp add: ri_length medium_loop.simps [of i])
  next
    case False
    with "1.prems" have "i \<noteq> 14" using ri_14 by auto
    with "1.prems" have "i + 1 \<le> 14" by simp
    with False "1.prems" "1.IH" show ?thesis
      by (simp add: ri_length medium_loop.simps [of i])
  qed
qed

lemma medium_total:
  assumes "decay (api context) \<or> has_crossed state < 0 \<or> sampler (api context) \<noteq> None"
  shows "\<exists>res. medium context pos dir state = Some res"
  using assms by (auto simp add: medium_def Let_def split: option.splits)

text \<open>
  Claim C6. For every position, direction and state, the geometry callback \<^verbatim>\<open>medium\<close>
  returns a step of at least \<open>10\<^sup>-\<^sup>3\<close> m whenever the medium index that it stores is
  \<open>0\<close> or more, and it returns the step \<open>0\<close> exactly when it stores the index \<open>-1\<close>
  (the exit beyond the outer radius, the exit of a neutrino from the atmosphere and the
  early return at a crossing of the flux boundary). The callback returns whenever it
  does not have to read a sampler that the context lacks.
\<close>

theorem medium_step_floor:
  assumes "decay (api context) \<or> has_crossed state < 0 \<or> sampler (api context) \<noteq> None"
  shows "\<exists>step state'. medium context pos dir state = Some (step, state') \<and>
           (0 \<le> medium_ix state' \<longrightarrow> 1 / 1000 \<le> step) \<and>
           (step = 0 \<longleftrightarrow> medium_ix state' = - 1)"
proof -
  obtain step state' where m: "medium context pos dir state = Some (step, state')"
    using medium_total [OF assms] by fastforce
  have "(0 \<le> medium_ix state' \<and> medium_ix state' < 15 \<and> 1 / 1000 \<le> step) \<or>
        (medium_ix state' = - 1 \<and> step = 0)"
    using m
    by (auto simp add: medium_def Let_def split: option.splits if_splits
          dest!: medium_loop_result)
  with m show ?thesis by auto
qed

theorem medium_step_floor_witness:
  "sampler (api (flux_context flux_sampler)) \<noteq> None \<and>
   (\<exists>step state'.
      medium (flux_context flux_sampler) (0, 0, 50000000) (0, 0, 1) far_tau = Some (step, state') \<and>
      (0 \<le> medium_ix state' \<longrightarrow> 1 / 1000 \<le> step) \<and>
      (step = 0 \<longleftrightarrow> medium_ix state' = - 1))"
  using medium_step_floor [of "flux_context flux_sampler" far_tau "(0, 0, 50000000)" "(0, 0, 1)"]
  by (simp add: flux_context_def)

lemma radius_le_iff: "0 \<le> g \<Longrightarrow> radius pos \<le> g \<longleftrightarrow> dot pos pos \<le> g * g"
proof -
  assume g: "0 \<le> g"
  have "sqrt (dot pos pos) \<le> sqrt (g * g) \<longleftrightarrow> dot pos pos \<le> g * g"
    by (rule real_sqrt_le_iff)
  with g show ?thesis by (simp add: radius_def)
qed

lemma dot_self_nonneg: "0 \<le> dot pos pos"
  by (cases pos) (simp add: dot_def)

text \<open>
  Claim C7, as the code has it. The outer bound of the transport is the geostationary
  radius, 42164 km, not twice that radius: at any radius beyond 42164 km \<^verbatim>\<open>medium\<close>
  returns the exit (step \<open>0\<close>, index \<open>-1\<close>) for every state and every context, a tau
  or a neutrino, with the check of the flux boundary on or off. For a tau at a radius
  of at most 42164 km, with the check of the flux boundary off (decay mode, or
  \<^verbatim>\<open>has_crossed\<close> negative), it stores a medium index from \<open>0\<close> to \<open>14\<close> and returns a
  step of at least \<open>10\<^sup>-\<^sup>3\<close> m.
\<close>

theorem medium_outer_bound:
  "(GEO_ORBIT < radius pos \<longrightarrow>
      medium context pos dir state = Some (0, state\<lparr>medium_ix := - 1\<rparr>)) \<and>
   (is_tau state \<and> (decay (api context) \<or> has_crossed state < 0) \<and> radius pos \<le> GEO_ORBIT \<longrightarrow>
      (\<exists>step state'. medium context pos dir state = Some (step, state') \<and>
         0 \<le> medium_ix state' \<and> medium_ix state' < 15 \<and> 1 / 1000 \<le> step))"
proof (intro conjI impI)
  assume "GEO_ORBIT < radius pos"
  then have "\<not> dot pos pos \<le> GEO_ORBIT * GEO_ORBIT"
    using radius_le_iff [of GEO_ORBIT pos] by (simp add: GEO_ORBIT_def)
  then show "medium context pos dir state = Some (0, state\<lparr>medium_ix := - 1\<rparr>)"
    by (simp add: medium_def Let_def)
next
  assume a: "is_tau state \<and> (decay (api context) \<or> has_crossed state < 0)
      \<and> radius pos \<le> GEO_ORBIT"
  then have le: "dot pos pos \<le> GEO_ORBIT * GEO_ORBIT"
    using radius_le_iff [of GEO_ORBIT pos] by (simp add: GEO_ORBIT_def)
  define st where "st = state\<lparr>medium_ix := - 1, r_cache := sqrt (dot pos pos)\<rparr>"
  have m: "medium context pos dir state = Some (medium_loop 0 pos dir (sqrt (dot pos pos)) st)"
    using a le by (auto simp add: medium_def Let_def st_def)
  obtain step state' where l: "medium_loop 0 pos dir (sqrt (dot pos pos)) st = (step, state')"
    by (cases "medium_loop 0 pos dir (sqrt (dot pos pos)) st")
  have "0 \<le> medium_ix state'"
    using medium_loop_finds_shell [of 0 "sqrt (dot pos pos)" pos dir st] a l
    by (simp add: radius_def)
  moreover have "(0 \<le> medium_ix state' \<and> medium_ix state' < 15 \<and> 1 / 1000 \<le> step) \<or>
        (medium_ix state' = - 1 \<and> step = 0)"
    using medium_loop_result [OF l] by (simp add: st_def)
  ultimately show "\<exists>step state'. medium context pos dir state = Some (step, state') \<and>
              0 \<le> medium_ix state' \<and> medium_ix state' < 15 \<and> 1 / 1000 \<le> step"
    using m l by auto
qed

lemma radius_far: "radius (0, 0, 50000000) = 50000000"
proof -
  have "sqrt ((50000000::real) * 50000000) = 50000000"
    by (rule real_sqrt_unique) simp_all
  then show ?thesis by (simp add: radius_def dot_def)
qed

text \<open>
  Claim C7 as stated fails: a tau at the radius of 50000 km, between 42164 km and twice
  42164 km, gets the exit, not a medium.
\<close>

theorem medium_outer_bound_counterexample:
  "is_tau far_tau \<and> position (base far_tau) = (0, 0, 50000000) \<and>
   42164000 < radius (0, 0, 50000000) \<and> radius (0, 0, 50000000) \<le> 2 * 42164000 \<and>
   medium (flux_context flux_sampler) (0, 0, 50000000) (0, 0, 1) far_tau
     = Some (0, far_tau\<lparr>medium_ix := - 1\<rparr>)"
  by (simp add: radius_far far_tau_def medium_def dot_def GEO_ORBIT_def Let_def)

theorem medium_outer_bound_witness:
  "GEO_ORBIT < radius (position (base far_nu)) \<and> \<not> is_tau far_nu \<and> has_crossed far_nu = 0 \<and>
   medium (flux_context flux_sampler) (position (base far_nu)) (0, 0, 1) far_nu
     = Some (0, far_nu\<lparr>medium_ix := - 1\<rparr>) \<and>
   is_tau surface_tau \<and> has_crossed surface_tau < 0 \<and>
   radius (position (base surface_tau)) \<le> GEO_ORBIT \<and>
   (\<exists>step state'.
      medium (flux_context flux_sampler) (position (base surface_tau)) (0, 0, 1) surface_tau
        = Some (step, state') \<and>
      0 \<le> medium_ix state' \<and> medium_ix state' < 15 \<and> 1 / 1000 \<le> step)"
proof -
  have r1: "radius (0, 0, 6371000) = 6371000"
  proof -
    have "sqrt ((6371000::real) * 6371000) = 6371000"
      by (rule real_sqrt_unique) simp_all
    then show ?thesis by (simp add: radius_def dot_def)
  qed
  have p1: "position (base far_nu) = (0, 0, 50000000)"
    by (simp add: far_nu_def)
  have p2: "position (base surface_tau) = (0, 0, 6371000)"
    by (simp add: surface_tau_def)
  show ?thesis
    using medium_outer_bound [of "(0, 0, 50000000)" "flux_context flux_sampler" "(0, 0, 1)" far_nu]
      medium_outer_bound [of "(0, 0, 6371000)" "flux_context flux_sampler" "(0, 0, 1)"
        surface_tau]
    unfolding p1 p2
    by (simp add: r1 radius_far far_nu_def surface_tau_def GEO_ORBIT_def)
qed

subsection \<open>The sampler\<close>

lemma dval_values:
  "dval 0 = 0" "dval 0x3FF0000000000000 = 1" "dval 0x4059000000000000 = 100"
  "dval 0x426D1A94A2000000 = 10 ^ 12" "dval 0x4049000000000000 = 50"
  by (simp_all add: dval_def Let_def)

lemma sampler_memory_weights [simp]:
  "sampler_memory (s\<lparr>neutrino_weight := nw\<rparr>) = sampler_memory s"
  "sampler_memory (s\<lparr>total_weight := tw\<rparr>) = sampler_memory s"
  "sampler_memory (s\<lparr>stored_hash := h\<rparr>) = sampler_memory s"
  by (simp_all add: sampler_memory_def)

lemma neutrino_weight_loop_sum:
  "neutrino_weight_loop a n acc = acc + (\<Sum>i<n. max 0 (dval (sampler_weight a i)))"
  by (induction n) (simp_all add: max_def)

lemma add_if_positive: "(if w > 0 then t + w else t) = t + max 0 (w::real)"
  by (simp add: max_def)

lemma sum_8_split:
  fixes f :: "nat \<Rightarrow> real"
  shows "(\<Sum>i<8. f i) = (\<Sum>i<6. f i) + f 6 + f 7"
proof -
  have "{..<8::nat} = insert 7 (insert 6 {..<6})" by auto
  then show ?thesis by simp
qed

lemma sampler_update_success:
  assumes "\<not> (dval (fst (altitude (sampler_api s))) < 0 \<or>
      dval (fst (altitude (sampler_api s))) > dval (snd (altitude (sampler_api s))))"
    and "\<not> (dval (fst (cos_theta (sampler_api s))) < 0 \<or>
      dval (fst (cos_theta (sampler_api s))) > dval (snd (cos_theta (sampler_api s))) \<or>
      dval (snd (cos_theta (sampler_api s))) > 1)"
    and "\<not> (dval (fst (elevation (sampler_api s))) < - 90 \<or>
      dval (fst (elevation (sampler_api s))) > dval (snd (elevation (sampler_api s))) \<or>
      dval (snd (elevation (sampler_api s))) > 90)"
    and "\<not> (dval (fst (sampler_energy (sampler_api s))) < 100 \<or>
      dval (fst (sampler_energy (sampler_api s))) > dval (snd (sampler_energy (sampler_api s))) \<or>
      dval (snd (sampler_energy (sampler_api s))) < 10 ^ 12)"
  shows "danton_sampler_update s =
     (EXIT_SUCCESS,
      s\<lparr>neutrino_weight := (\<Sum>i<6. max 0 (dval (sampler_weight (sampler_api s) i))),
        total_weight := (\<Sum>i<8. max 0 (dval (sampler_weight (sampler_api s) i))),
        stored_hash := hash (sampler_memory s)\<rparr>)"
  unfolding danton_sampler_update_def Let_def
  by (simp only: assms if_False add_if_positive neutrino_weight_loop_sum sum_8_split)
     (simp add: DANTON_PARTICLE_defs)

lemma sampler_update_failure:
  assumes "(dval (fst (altitude (sampler_api s))) < 0 \<or>
      dval (fst (altitude (sampler_api s))) > dval (snd (altitude (sampler_api s)))) \<or>
     (dval (fst (cos_theta (sampler_api s))) < 0 \<or>
      dval (fst (cos_theta (sampler_api s))) > dval (snd (cos_theta (sampler_api s))) \<or>
      dval (snd (cos_theta (sampler_api s))) > 1) \<or>
     (dval (fst (elevation (sampler_api s))) < - 90 \<or>
      dval (fst (elevation (sampler_api s))) > dval (snd (elevation (sampler_api s))) \<or>
      dval (snd (elevation (sampler_api s))) > 90) \<or>
     (dval (fst (sampler_energy (sampler_api s))) < 100 \<or>
      dval (fst (sampler_energy (sampler_api s))) > dval (snd (sampler_energy (sampler_api s))) \<or>
      dval (snd (sampler_energy (sampler_api s))) < 10 ^ 12)"
  shows "danton_sampler_update s = (EXIT_FAILURE, s)"
  using assms unfolding danton_sampler_update_def Let_def
  by (elim disjE) simp_all

text \<open>
  Claim C4. \<^verbatim>\<open>danton_sampler_update\<close> returns the failure, and leaves the sampler as
  it was (no new hash is stamped), if and only if one of the range conditions is
  violated: \<open>altitude[0] < 0\<close>, \<open>altitude[0] > altitude[1]\<close>, \<open>cos_theta[0] < 0\<close>,
  \<open>cos_theta[0] > cos_theta[1]\<close>, \<open>cos_theta[1] > 1\<close>, \<open>elevation[0] < -90\<close>,
  \<open>elevation[0] > elevation[1]\<close>, \<open>elevation[1] > 90\<close>, \<open>energy[0] < 100\<close>,
  \<open>energy[0] > energy[1]\<close> or \<open>energy[1] < 10\<^sup>1\<^sup>2\<close>. Otherwise it returns the success,
  having stored the sum of the positive weights of the six neutrino kinds, the sum of
  the positive weights of all eight kinds and the hash of the sampler.
\<close>

theorem sampler_update_validation:
  "(fst (danton_sampler_update s) = EXIT_FAILURE \<longleftrightarrow>
      dval (fst (altitude (sampler_api s))) < 0 \<or>
      dval (fst (altitude (sampler_api s))) > dval (snd (altitude (sampler_api s))) \<or>
      dval (fst (cos_theta (sampler_api s))) < 0 \<or>
      dval (fst (cos_theta (sampler_api s))) > dval (snd (cos_theta (sampler_api s))) \<or>
      dval (snd (cos_theta (sampler_api s))) > 1 \<or>
      dval (fst (elevation (sampler_api s))) < - 90 \<or>
      dval (fst (elevation (sampler_api s))) > dval (snd (elevation (sampler_api s))) \<or>
      dval (snd (elevation (sampler_api s))) > 90 \<or>
      dval (fst (sampler_energy (sampler_api s))) < 100 \<or>
      dval (fst (sampler_energy (sampler_api s))) > dval (snd (sampler_energy (sampler_api s))) \<or>
      dval (snd (sampler_energy (sampler_api s))) < 10 ^ 12) \<and>
   (if fst (danton_sampler_update s) = EXIT_FAILURE
    then snd (danton_sampler_update s) = s
    else fst (danton_sampler_update s) = EXIT_SUCCESS \<and>
         snd (danton_sampler_update s) =
           s\<lparr>neutrino_weight := (\<Sum>i<6. max 0 (dval (sampler_weight (sampler_api s) i))),
             total_weight := (\<Sum>i<8. max 0 (dval (sampler_weight (sampler_api s) i))),
             stored_hash := hash (sampler_memory s)\<rparr>)"
proof (cases "(dval (fst (altitude (sampler_api s))) < 0 \<or>
      dval (fst (altitude (sampler_api s))) > dval (snd (altitude (sampler_api s)))) \<or>
     (dval (fst (cos_theta (sampler_api s))) < 0 \<or>
      dval (fst (cos_theta (sampler_api s))) > dval (snd (cos_theta (sampler_api s))) \<or>
      dval (snd (cos_theta (sampler_api s))) > 1) \<or>
     (dval (fst (elevation (sampler_api s))) < - 90 \<or>
      dval (fst (elevation (sampler_api s))) > dval (snd (elevation (sampler_api s))) \<or>
      dval (snd (elevation (sampler_api s))) > 90) \<or>
     (dval (fst (sampler_energy (sampler_api s))) < 100 \<or>
      dval (fst (sampler_energy (sampler_api s))) > dval (snd (sampler_energy (sampler_api s))) \<or>
      dval (snd (sampler_energy (sampler_api s))) < 10 ^ 12)")
  case True
  from sampler_update_failure [OF True] True show ?thesis
    by (simp only: fst_conv snd_conv if_True simp_thms disj_assoc)
next
  case False
  then have *: "danton_sampler_update s =
     (EXIT_SUCCESS,
      s\<lparr>neutrino_weight := (\<Sum>i<6. max 0 (dval (sampler_weight (sampler_api s) i))),
        total_weight := (\<Sum>i<8. max 0 (dval (sampler_weight (sampler_api s) i))),
        stored_hash := hash (sampler_memory s)\<rparr>)"
    by (intro sampler_update_success) blast+
  from False show ?thesis
    by (simp only: * fst_conv snd_conv status.simps if_False simp_thms disj_assoc)
qed

lemma le_bytes_0: "le_bytes 0 = [0, 0, 0, 0, 0, 0, 0, 0]"
  by (simp add: le_bytes_def upt_rec)

lemma hash_zero_first: "hash (0 # str) = 5381"
  by (simp add: hash_def)

lemma flux_sampler_memory: "sampler_memory flux_sampler = 0 # tl (sampler_memory flux_sampler)"
  by (simp add: sampler_memory_def danton_sampler_bytes_def flux_sampler_def
        danton_sampler_create_def le_bytes_0)

lemma flux_sampler_update:
  "danton_sampler_update flux_sampler =
     (EXIT_SUCCESS, flux_sampler\<lparr>neutrino_weight := 1, total_weight := 1, stored_hash := 5381\<rparr>)"
proof -
  have h: "hash (sampler_memory flux_sampler) = 5381"
    by (subst flux_sampler_memory) (rule hash_zero_first)
  have w: "sampler_weight (sampler_api flux_sampler) = (\<lambda>_. 0)(5 := 0x3FF0000000000000)"
    by (simp add: flux_sampler_def)
  have n: "(\<Sum>i<6. max 0 (dval (sampler_weight (sampler_api flux_sampler) i))) = 1"
    by (simp add: w dval_values lessThan_nat_numeral lessThan_Suc)
  have t: "(\<Sum>i<8. max 0 (dval (sampler_weight (sampler_api flux_sampler) i))) = 1"
    by (simp add: w dval_values lessThan_nat_numeral lessThan_Suc)
  show ?thesis
    by (subst sampler_update_success)
      (simp_all add: h n t, simp_all add: flux_sampler_def dval_values)
qed

theorem sampler_update_validation_witness:
  "fst (danton_sampler_update flux_sampler) = EXIT_SUCCESS \<and>
   snd (danton_sampler_update flux_sampler) =
     flux_sampler\<lparr>neutrino_weight := 1, total_weight := 1, stored_hash := 5381\<rparr> \<and>
   fst (danton_sampler_update danton_sampler_create) = EXIT_FAILURE \<and>
   snd (danton_sampler_update danton_sampler_create) = danton_sampler_create"
proof -
  have c: "dval (fst (sampler_energy (sampler_api danton_sampler_create))) < 100"
    by (simp add: danton_sampler_create_def dval_values)
  show ?thesis
    using sampler_update_validation [of flux_sampler]
       sampler_update_validation [of danton_sampler_create] c
    by (simp add: flux_sampler_update)
qed

lemma stale_sampler_eq:
  "stale_sampler = flux_sampler\<lparr>neutrino_weight := 1, total_weight := 1, stored_hash := 5381,
      sampler_api := (sampler_api flux_sampler)\<lparr>sampler_energy := (0x4049000000000000, 0x426D1A94A2000000)\<rparr>\<rparr>"
  by (simp add: stale_sampler_def flux_sampler_update Let_def)

lemma stale_sampler_memory: "sampler_memory stale_sampler = 0 # tl (sampler_memory stale_sampler)"
  by (simp add: stale_sampler_eq sampler_memory_def danton_sampler_bytes_def flux_sampler_def
        danton_sampler_create_def le_bytes_0)

text \<open>
  Claim C5 says that after a successful update any later change of a field of the
  sampler changes the hash, so that \<^verbatim>\<open>danton_run\<close> refuses to run. The hash stops at
  the first zero byte of the struct, and the first byte of the sampler below is zero
  (\<open>altitude[0] = 0.\<close>): its hash is \<open>5381\<close> whatever the other fields hold. After
  the update, writing \<open>50.\<close> to \<^verbatim>\<open>energy[0]\<close> changes the sampler and leaves the
  sampler's bytes with the stored hash; an update would now fail, yet the checks of
  \<^verbatim>\<open>danton_run\<close> pass.
\<close>

theorem stale_sampler_accepted:
  "fst (danton_sampler_update flux_sampler) = EXIT_SUCCESS \<and>
   sampler_api stale_sampler \<noteq> sampler_api (snd (danton_sampler_update flux_sampler)) \<and>
   dval (fst (sampler_energy (sampler_api stale_sampler))) = 50 \<and>
   stored_hash stale_sampler = stored_hash (snd (danton_sampler_update flux_sampler)) \<and>
   hash (sampler_memory stale_sampler) = stored_hash stale_sampler \<and>
   fst (danton_sampler_update stale_sampler) = EXIT_FAILURE \<and>
   fst (danton_run_configure m (flux_context stale_sampler) 10) = EXIT_SUCCESS"
proof -
  have h: "hash (sampler_memory stale_sampler) = 5381"
    by (subst stale_sampler_memory) (rule hash_zero_first)
  have s: "stored_hash stale_sampler = 5381"
    by (simp add: stale_sampler_eq)
  have e: "dval (fst (sampler_energy (sampler_api stale_sampler))) = 50"
    by (simp add: stale_sampler_eq dval_values)
  have f: "danton_sampler_update stale_sampler = (EXIT_FAILURE, stale_sampler)"
    by (rule sampler_update_failure) (simp add: e)
  have n: "sampler_api stale_sampler \<noteq> sampler_api (snd (danton_sampler_update flux_sampler))"
    by (simp add: stale_sampler_eq flux_sampler_update)
       (simp add: flux_sampler_def danton_sampler_create_def)
  have r: "fst (danton_run_configure m (flux_context stale_sampler) 10) = EXIT_SUCCESS"
    by (simp add: danton_run_configure_def flux_context_def h s Let_def)
       (simp add: stale_sampler_eq)
  show ?thesis
    using n by (simp add: h s e f r flux_sampler_update)
qed

subsection \<open>Drawing the primaries\<close>

lemma sample_log_or_linear_equal:
  "fst x = snd x \<Longrightarrow> sample_log_or_linear context x wgt = (fst x, wgt, context)"
  by (simp add: sample_log_or_linear_def)

text \<open>
  Claim C9. When the energy bounds of the sampler are equal, the log-or-linear draw
  returns that bound, with the weight and the random source as they were; so the
  primary of every forward event has the energy \<open>E_min\<close> and the weight \<open>1\<close>.
\<close>

theorem monokinetic_primary:
  assumes "dval (fst (sampler_energy a)) = dval (snd (sampler_energy a))"
  shows "sample_log_or_linear context
           (dval (fst (sampler_energy a)), dval (snd (sampler_energy a))) wgt
           = (dval (fst (sampler_energy a)), wgt, context) \<and>
         energy (base (fst (forward_primary context a projectile i events)))
           = dval (fst (sampler_energy a)) \<and>
         weight (base (fst (forward_primary context a projectile i events))) = 1"
proof -
  have eq: "\<And>c w. sample_log_or_linear c
           (dval (fst (sampler_energy a)), dval (snd (sampler_energy a))) w
           = (dval (fst (sampler_energy a)), w, c)"
    using assms by (simp add: sample_log_or_linear_equal)
  have nlt: "\<not> dval (fst (sampler_energy a)) < dval (snd (sampler_energy a))"
    using assms by simp
  obtain ct w0 c1 where sl:
    "sample_linear context (dval (fst (cos_theta a)), dval (snd (cos_theta a))) i events None
       = (ct, w0, c1)"
    by (cases "sample_linear context (dval (fst (cos_theta a)), dval (snd (cos_theta a))) i events None")
  have "forward_primary context a projectile i events =
          (\<lparr>base = \<lparr>distance = 0, grammage = 0, weight = 1,
                   position = (0, 0, - EARTH_RADIUS - 10 ^ 5),
                   direction = (sqrt (1 - ct * ct), 0, ct),
                   pid = projectile, energy = dval (fst (sampler_energy a))\<rparr>,
           medium_ix = - 1, density = 0, r_cache = 0, is_tau = False, is_inside = - 1,
           has_crossed = (if decay (api context) then - 1 else 0), cross_count = 0\<rparr>,
          c1\<lparr>primary_dumped := False\<rparr>)"
    by (simp add: forward_primary_def sl eq nlt Let_def)
  then show ?thesis by (simp add: eq)
qed

theorem monokinetic_primary_witness:
  "sample_log_or_linear (flux_context flux_sampler) (10 ^ 12, 10 ^ 12) (Some 1)
           = (10 ^ 12, Some 1, flux_context flux_sampler) \<and>
   energy (base (fst (forward_primary (flux_context flux_sampler) mono_sampler 16 0 10))) = 10 ^ 12 \<and>
   weight (base (fst (forward_primary (flux_context flux_sampler) mono_sampler 16 0 10))) = 1"
  using monokinetic_primary [of mono_sampler "flux_context flux_sampler" "Some 1" 16 0 10]
  by (simp add: mono_sampler_def dval_values)

subsection \<open>Forward and backward transport\<close>

text \<open>A neutrino of a transportable kind enters the loop with its direction saved.\<close>

lemma transport_forward_loop:
  "pid (base neutrino) = ENT_PID_NU_BAR_E \<or> \<bar>pid (base neutrino)\<bar> = ENT_PID_NU_TAU \<Longrightarrow>
   transport_forward n E tau_mass rs neutrino eventid generation ancestor =
     forward_loop n E tau_mass eventid ancestor (direction (base neutrino)) rs neutrino
       generation"
  by (auto simp add: transport_forward_def forward_entry_def)

text \<open>
  Claim C1. In forward flux mode, take a step of the neutrino engine that ends with the
  exit, the flux boundary crossed (\<^verbatim>\<open>has_crossed\<close> not zero). The loop first applies
  the energy cut, as at every step: a neutrino at or below the cut (within
  \<^verbatim>\<open>FLT_EPSILON\<close>) ends its track there, with nothing counted and nothing written.
  Past the cut, the transport increments \<^verbatim>\<open>cross_count\<close>. If the count is then \<open>2\<close>
  it writes one flux record, the line of the ancestor if the latch is not set and one
  line for the neutrino, and ends the track. Otherwise it writes nothing, re-arms the
  state (\<open>is_inside = -1\<close>, \<open>has_crossed = 0\<close>) and goes on with the next round of the
  loop. So each second crossing gives exactly one flux record.
\<close>

theorem flux_crossing_emission:
  assumes "ent_transport E (world rs) (sim_context rs) neutrino
             = (w, mt, nu1, product, ENT_EVENT_EXIT)"
    and "flux_neutrino (sim_context rs)"
    and "has_crossed nu1 \<noteq> 0"
  shows "forward_loop (Suc n) E tau_mass eventid ancestor dir0 rs neutrino generation =
     (if energy (base nu1) \<le> energy_cut (sim_context rs) + FLT_EPSILON
      then Inr (rs\<lparr>world := w, sim_context := (sim_context rs)\<lparr>random_mt := mt\<rparr>\<rparr>, nu1)
      else if cross_count nu1 + 1 = 2
      then Inr (rs\<lparr>world := w,
                  sim_context := (sim_context rs)\<lparr>random_mt := mt, primary_dumped := True\<rparr>,
                  written := written rs
                    @ (if primary_dumped (sim_context rs) then [] else [Ancestor eventid ancestor])
                    @ [Neutrino generation (base nu1)]\<rparr>,
                nu1\<lparr>cross_count := 2\<rparr>)
      else forward_loop n E tau_mass eventid ancestor dir0
             (rs\<lparr>world := w, sim_context := (sim_context rs)\<lparr>random_mt := mt\<rparr>\<rparr>)
             (nu1\<lparr>cross_count := cross_count nu1 + 1, is_inside := - 1, has_crossed := 0\<rparr>)
             generation)"
  using assms
  by (simp add: forward_round_def call_ent_transport_def forward_flux_crossing_def
        format_neutrino_def dump_primary_def format_ancestor_def Let_def)

lemma armed_context_simps:
  "flux_neutrino armed_context" "energy_cut armed_context = 100"
  "\<not> primary_dumped armed_context" "\<not> longitudinal (api armed_context)"
  by (simp_all add: armed_context_def flux_context_def)

theorem flux_crossing_emission_witness:
  "transport_forward 2 exit_engines 1.777 armed_run (nu_tau_at 1000 0) 0 1
       (base (nu_tau_at 1000 0))
     = Inr (armed_run\<lparr>sim_context := armed_context\<lparr>primary_dumped := True\<rparr>,
              written := [Ancestor 0 (base (nu_tau_at 1000 0)),
                          Neutrino 1 (base (nu_tau_at 1000 0))]\<rparr>,
            (nu_tau_at 1000 0)\<lparr>medium_ix := - 1, has_crossed := 1, cross_count := 2\<rparr>) \<and>
   forward_loop 1 exit_engines 1.777 0 (base (nu_tau_at 100 0)) (0, 0, 1) armed_run
       (nu_tau_at 100 0) 1
     = Inr (armed_run, (nu_tau_at 100 0)\<lparr>medium_ix := - 1, has_crossed := 1\<rparr>)"
proof -
  let ?anc = "base (nu_tau_at 1000 0)"
  let ?nu1 = "(nu_tau_at 1000 0)\<lparr>medium_ix := - 1, has_crossed := 1\<rparr>"
  let ?nu2 = "?nu1\<lparr>cross_count := cross_count ?nu1 + 1, is_inside := - 1, has_crossed := 0\<rparr>"
  let ?nu3 = "?nu2\<lparr>medium_ix := - 1, has_crossed := 1\<rparr>"
  have rs: "armed_run\<lparr>world := [], sim_context := (sim_context armed_run)\<lparr>random_mt := random_mt armed_context\<rparr>\<rparr> = armed_run"
    by (simp add: armed_run_def)
  have first: "forward_loop (Suc 1) exit_engines 1.777 0 ?anc (0, 0, 1) armed_run (nu_tau_at 1000 0) 1
      = forward_loop 1 exit_engines 1.777 0 ?anc (0, 0, 1) armed_run ?nu2 1"
    using flux_crossing_emission [of exit_engines armed_run "nu_tau_at 1000 0" "[]"
        "random_mt armed_context" ?nu1 ?anc 1 "1.777" 0 ?anc "(0, 0, 1)" 1]
    by (simp add: rs exit_engines_def armed_run_def armed_context_simps nu_tau_at_def
          FLT_EPSILON_def)
  have second: "forward_loop (Suc 0) exit_engines 1.777 0 ?anc (0, 0, 1) armed_run ?nu2 1
      = Inr (armed_run\<lparr>sim_context := armed_context\<lparr>primary_dumped := True\<rparr>,
              written := [Ancestor 0 ?anc, Neutrino 1 ?anc]\<rparr>,
            ?nu3\<lparr>cross_count := 2\<rparr>)"
    using flux_crossing_emission [of exit_engines armed_run ?nu2 "[]"
        "random_mt armed_context" ?nu3 ?anc 0 "1.777" 0 ?anc "(0, 0, 1)" 1]
    by (simp add: exit_engines_def armed_run_def armed_context_simps nu_tau_at_def
          FLT_EPSILON_def)
  have two: "(2::nat) = Suc 1" by simp
  have kind: "pid (base (nu_tau_at 1000 0)) = ENT_PID_NU_BAR_E
      \<or> \<bar>pid (base (nu_tau_at 1000 0))\<bar> = ENT_PID_NU_TAU"
    by (simp add: nu_tau_at_def ENT_PID_defs)
  have dir0: "direction (base (nu_tau_at 1000 0)) = (0, 0, 1)"
    by (simp add: nu_tau_at_def)
  have entry: "transport_forward 2 exit_engines 1.777 armed_run (nu_tau_at 1000 0) 0 1 ?anc
      = forward_loop 2 exit_engines 1.777 0 ?anc (0, 0, 1) armed_run (nu_tau_at 1000 0) 1"
    by (simp only: transport_forward_loop [OF kind] dir0)
  have cut: "forward_loop (Suc 0) exit_engines 1.777 0 (base (nu_tau_at 100 0)) (0, 0, 1)
        armed_run (nu_tau_at 100 0) 1
      = Inr (armed_run, (nu_tau_at 100 0)\<lparr>medium_ix := - 1, has_crossed := 1\<rparr>)"
    using flux_crossing_emission [of exit_engines armed_run "nu_tau_at 100 0" "[]"
        "random_mt armed_context" "(nu_tau_at 100 0)\<lparr>medium_ix := - 1, has_crossed := 1\<rparr>"
        "base (nu_tau_at 100 0)" 0 "1.777" 0 "base (nu_tau_at 100 0)" "(0, 0, 1)" 1]
    by (simp add: rs exit_engines_def armed_run_def armed_context_simps nu_tau_at_def
          FLT_EPSILON_def)
  have one: "(1::nat) = Suc 0" by simp
  have crossings: "transport_forward 2 exit_engines 1.777 armed_run (nu_tau_at 1000 0) 0 1 ?anc
     = Inr (armed_run\<lparr>sim_context := armed_context\<lparr>primary_dumped := True\<rparr>,
              written := [Ancestor 0 ?anc, Neutrino 1 ?anc]\<rparr>,
            (nu_tau_at 1000 0)\<lparr>medium_ix := - 1, has_crossed := 1, cross_count := 2\<rparr>)"
    unfolding entry unfolding two first using second by (simp add: nu_tau_at_def)
  show ?thesis
    using crossings cut by (simp only: one)
qed

lemma forward_products_below_air:
  "forward_products n E eventid generation ancestor ppid tau_prod tau_data dir0 rs nprod nu_e nu_t
     = Inr (rs', nprod', nu_e', nu_t') \<Longrightarrow>
   medium_ix tau_data < 10 \<Longrightarrow>
   written rs' = written rs \<and> nprod' = nprod \<and> sim_context rs' = sim_context rs"
proof (induction n arbitrary: rs nu_e nu_t)
  case 0
  then show ?case by simp
next
  case (Suc n)
  obtain w res where ap: "alouette_product E (world rs) = (w, res)"
    by (cases "alouette_product E (world rs)")
  show ?case
  proof (cases res)
    case None
    with Suc.prems ap show ?thesis by auto
  next
    case (Some pm)
    obtain p momentum where pm: "pm = (p, momentum)" by (cases pm)
    from Suc.prems ap Some pm
    have "\<exists>nu_e0 nu_t0.
            forward_products n E eventid generation ancestor ppid tau_prod tau_data dir0
              (rs\<lparr>world := w\<rparr>) nprod nu_e0 nu_t0 = Inr (rs', nprod', nu_e', nu_t')"
      by (auto simp add: Let_def split: if_splits)
    then obtain nu_e0 nu_t0 where
      "forward_products n E eventid generation ancestor ppid tau_prod tau_data dir0
         (rs\<lparr>world := w\<rparr>) nprod nu_e0 nu_t0 = Inr (rs', nprod', nu_e', nu_t')"
      by blast
    from Suc.IH [OF this Suc.prems(2)] show ?thesis by simp
  qed
qed

lemma forward_products_in_air:
  assumes "alouette_product E (world rs) = (w, Some (p, momentum))"
    and "\<bar>p\<bar> \<noteq> 16" "p \<noteq> - 12" "p \<noteq> 12" "\<bar>p\<bar> \<noteq> 13" "\<bar>p\<bar> \<noteq> 14"
    and "decay (api (sim_context rs))"
  shows "forward_products (Suc n) E eventid generation ancestor ppid tau_prod tau_data dir0
           rs nprod nu_e nu_t =
         (if medium_ix tau_data < 10
          then forward_products n E eventid generation ancestor ppid tau_prod tau_data dir0
                 (rs\<lparr>world := w\<rparr>) nprod nu_e nu_t
          else forward_products n E eventid generation ancestor ppid tau_prod tau_data dir0
                 (format_decay_product p momentum
                    (if nprod = 0
                     then format_tau generation ppid tau_prod (base tau_data)
                            (dump_primary eventid ancestor (rs\<lparr>world := w\<rparr>))
                     else rs\<lparr>world := w\<rparr>))
                 (nprod + 1) nu_e nu_t)"
  using assms by (simp add: Let_def)

lemma backward_products_any_medium:
  "backward_products n E eventid generation state p0
     (tau_at_production\<lparr>medium_ix := i\<rparr>) (final\<lparr>medium_ix := j\<rparr>) rs nprod
   = backward_products n E eventid generation state p0 tau_at_production final rs nprod"
  by (induction n arbitrary: rs nprod) (simp_all add: Let_def split: prod.splits option.splits)

lemma backward_products_emits:
  assumes "alouette_product E (world rs) = (w, Some (p, momentum))"
    and "\<bar>p\<bar> \<noteq> 16" "p \<noteq> 12" "\<bar>p\<bar> \<noteq> 13" "\<bar>p\<bar> \<noteq> 14"
  shows "backward_products (Suc n) E eventid generation state p0 tau_at_production final
           rs nprod =
         backward_products n E eventid generation state p0 tau_at_production final
           (format_decay_product p momentum
              (if nprod = 0
               then format_tau generation p0 (base tau_at_production) (base final)
                      (format_ancestor eventid state (rs\<lparr>world := w\<rparr>))
               else rs\<lparr>world := w\<rparr>))
           (nprod + 1)"
  using assms by (simp add: Let_def)

text \<open>
  Claim C2. In forward transport nothing is written for the daughters of a tau whose
  cached medium index is below \<open>10\<close>. A daughter that is none of \<open>\<nu>\<^sub>\<tau>\<close>, \<open>\<nu>\<^sub>e\<close>-bar,
  \<open>\<nu>\<^sub>e\<close>, \<open>\<mu>\<close>, \<open>\<nu>\<^sub>\<mu>\<close> is skipped there, and written as a decay product (after the
  ancestor and the tau, the first time) when the index is \<open>10\<close> or more. The backward
  decay writes such a daughter whatever the medium index of the final tau and of the
  tau at production: its output does not depend on them.
\<close>

theorem decay_products_medium:
  "(forward_products n E eventid generation ancestor ppid tau_prod tau_data dir0 rs nprod
        nu_e nu_t = Inr (rs', nprod', nu_e', nu_t') \<and> medium_ix tau_data < 10
      \<longrightarrow> written rs' = written rs \<and> nprod' = nprod) \<and>
   (alouette_product E (world rs) = (w, Some (p, momentum)) \<and>
    \<bar>p\<bar> \<noteq> 16 \<and> p \<noteq> - 12 \<and> p \<noteq> 12 \<and> \<bar>p\<bar> \<noteq> 13 \<and> \<bar>p\<bar> \<noteq> 14 \<and>
    decay (api (sim_context rs))
      \<longrightarrow> forward_products (Suc n) E eventid generation ancestor ppid tau_prod tau_data dir0
            rs nprod nu_e nu_t =
          (if medium_ix tau_data < 10
           then forward_products n E eventid generation ancestor ppid tau_prod tau_data dir0
                  (rs\<lparr>world := w\<rparr>) nprod nu_e nu_t
           else forward_products n E eventid generation ancestor ppid tau_prod tau_data dir0
                  (format_decay_product p momentum
                     (if nprod = 0
                      then format_tau generation ppid tau_prod (base tau_data)
                             (dump_primary eventid ancestor (rs\<lparr>world := w\<rparr>))
                      else rs\<lparr>world := w\<rparr>))
                  (nprod + 1) nu_e nu_t) \<and>
          backward_products (Suc n) E eventid generation state p0 tau_at_production final
            rs nprod =
          backward_products n E eventid generation state p0 tau_at_production final
            (format_decay_product p momentum
               (if nprod = 0
                then format_tau generation p0 (base tau_at_production) (base final)
                       (format_ancestor eventid state (rs\<lparr>world := w\<rparr>))
                else rs\<lparr>world := w\<rparr>))
            (nprod + 1)) \<and>
   backward_products n E eventid generation state p0
     (tau_at_production\<lparr>medium_ix := i\<rparr>) (final\<lparr>medium_ix := j\<rparr>) rs nprod
   = backward_products n E eventid generation state p0 tau_at_production final rs nprod"
proof (intro conjI impI)
  assume "forward_products n E eventid generation ancestor ppid tau_prod tau_data dir0 rs nprod
        nu_e nu_t = Inr (rs', nprod', nu_e', nu_t') \<and> medium_ix tau_data < 10"
  then show "written rs' = written rs" "nprod' = nprod"
    using forward_products_below_air by blast+
next
  assume a: "alouette_product E (world rs) = (w, Some (p, momentum)) \<and>
    \<bar>p\<bar> \<noteq> 16 \<and> p \<noteq> - 12 \<and> p \<noteq> 12 \<and> \<bar>p\<bar> \<noteq> 13 \<and> \<bar>p\<bar> \<noteq> 14 \<and>
    decay (api (sim_context rs))"
  then show "forward_products (Suc n) E eventid generation ancestor ppid tau_prod tau_data dir0
            rs nprod nu_e nu_t =
          (if medium_ix tau_data < 10
           then forward_products n E eventid generation ancestor ppid tau_prod tau_data dir0
                  (rs\<lparr>world := w\<rparr>) nprod nu_e nu_t
           else forward_products n E eventid generation ancestor ppid tau_prod tau_data dir0
                  (format_decay_product p momentum
                     (if nprod = 0
                      then format_tau generation ppid tau_prod (base tau_data)
                             (dump_primary eventid ancestor (rs\<lparr>world := w\<rparr>))
                      else rs\<lparr>world := w\<rparr>))
                  (nprod + 1) nu_e nu_t)"
    by (intro forward_products_in_air) simp_all
  from a show "backward_products (Suc n) E eventid generation state p0 tau_at_production final
            rs nprod =
          backward_products n E eventid generation state p0 tau_at_production final
            (format_decay_product p momentum
               (if nprod = 0
                then format_tau generation p0 (base tau_at_production) (base final)
                       (format_ancestor eventid state (rs\<lparr>world := w\<rparr>))
                else rs\<lparr>world := w\<rparr>))
            (nprod + 1)"
    by (intro backward_products_emits) simp_all
next
  show "backward_products n E eventid generation state p0
     (tau_at_production\<lparr>medium_ix := i\<rparr>) (final\<lparr>medium_ix := j\<rparr>) rs nprod
   = backward_products n E eventid generation state p0 tau_at_production final rs nprod"
    by (rule backward_products_any_medium)
qed

lemma decay_context_simps:
  "decay (api decay_context)" "\<not> primary_dumped decay_context"
  "\<not> longitudinal (api decay_context)"
  by (simp_all add: decay_context_def flux_context_def)

theorem decay_products_medium_witness:
  "forward_products 3 (tau_engines True) 0 1 (base (nu_tau_at 1000 0)) 15 (base far_tau)
       (tau_in 9) (0, 0, 1) decay_run 0 None None
     = Inr (decay_run\<lparr>world := []\<rparr>, 0, None,
            Some (copy_neutrino decay_context (base far_tau) 16 (0, 0, 3) (0, 0, 1))) \<and>
   forward_products 3 (tau_engines True) 0 1 (base (nu_tau_at 1000 0)) 15 (base far_tau)
       (tau_in 10) (0, 0, 1) decay_run 0 None None
     = Inr (decay_run\<lparr>world := [], sim_context := decay_context\<lparr>primary_dumped := True\<rparr>,
              written := [Ancestor 0 (base (nu_tau_at 1000 0)),
                          Tau 1 15 (base far_tau) (base far_tau),
                          Decay_product 211 (0, 0, 5)]\<rparr>, 1, None,
            Some (copy_neutrino decay_context (base far_tau) 16 (0, 0, 3) (0, 0, 1))) \<and>
   backward_products 3 (tau_engines True) 0 1 (base (nu_tau_at 1000 0)) 15 (tau_in 9) (tau_in 9)
       decay_run 0
     = Inr (decay_run\<lparr>world := [],
              written := [Ancestor 0 (base (nu_tau_at 1000 0)),
                          Tau 1 15 (base far_tau) (base far_tau),
                          Decay_product 211 (0, 0, 5)]\<rparr>)"
  using decay_products_medium [of 2 "tau_engines True" 0 1 "base (nu_tau_at 1000 0)" 15
      "base far_tau" "tau_in 9" "(0, 0, 1)" decay_run 0 None None _ _ _ _
      "[(16, (0, 0, 3))]" 211 "(0, 0, 5)" "base (nu_tau_at 1000 0)" 15 "tau_in 9" "tau_in 9"]
  by (simp add: eval_nat_numeral tau_engines_def decay_run_def decay_context_simps tau_in_def
        copy_neutrino_def format_decay_product_def format_tau_def format_ancestor_def dump_primary_def Let_def)




lemma count_simps [simp]:
  "decay_calls (rs\<lparr>written := x\<rparr>) = decay_calls rs"
  "tau_decays (rs\<lparr>written := x\<rparr>) = tau_decays rs"
  "decay_calls (rs\<lparr>sim_context := c\<rparr>) = decay_calls rs"
  "tau_decays (rs\<lparr>sim_context := c\<rparr>) = tau_decays rs"
  "decay_calls (rs\<lparr>world := (w, k, d)\<rparr>) = k"
  "tau_decays (rs\<lparr>world := (w, k, d)\<rparr>) = d"
  by (simp_all add: decay_calls_def tau_decays_def)

lemma count_output [simp]:
  "decay_calls (format_ancestor e a rs) = decay_calls rs"
  "tau_decays (format_ancestor e a rs) = tau_decays rs"
  "decay_calls (format_tau g p t1 t2 rs) = decay_calls rs"
  "tau_decays (format_tau g p t1 t2 rs) = tau_decays rs"
  "decay_calls (format_neutrino g nu rs) = decay_calls rs"
  "tau_decays (format_neutrino g nu rs) = tau_decays rs"
  "decay_calls (format_decay_product p m rs) = decay_calls rs"
  "tau_decays (format_decay_product p m rs) = tau_decays rs"
  "decay_calls (dump_primary e a rs) = decay_calls rs"
  "tau_decays (dump_primary e a rs) = tau_decays rs"
  by (simp_all add: format_ancestor_def format_tau_def format_neutrino_def
        format_decay_product_def dump_primary_def)














lemma counted_simps [simp]:
  "sim_context (counted rs k d) = sim_context rs" "world (counted rs k d) = (world rs, k, d)"
  "written (counted rs k d) = written rs"
  "decay_calls (counted rs k d) = k" "tau_decays (counted rs k d) = d"
  by (simp_all add: counted_def decay_calls_def tau_decays_def)


lemma forward_daughter_None [simp]: "forward_daughter recurse tau_data generation None rs = Inr rs"
  by (simp add: forward_daughter_def)







text \<open>
  Claim C3, as the code has it. When the backward transport is entered with a tau in
  decay mode, or at a generation after the first, the weight of the tau is multiplied
  by \<open>m\<^sub>\<tau> / (c\<tau>\<^sub>0 |p|)\<close>, with \<open>|p| = sqrt (K (K + 2 m\<^sub>\<tau>))\<close>, before the tau is
  propagated backward; in flux mode at the first generation the tau is propagated
  with the weight it came with. The divisor is positive for a positive kinetic energy,
  mass and lifetime.
\<close>

theorem backward_decay_weight_applied:
  "backward_tau n E tau_mass tau_ctau0 generation rs current =
     backward_tau_loop n E tau_mass tau_ctau0 generation rs
       (if decay (api (sim_context rs)) \<or> 1 < generation
        then current\<lparr>base := (base current)\<lparr>weight :=
               weight (base current) *
                 (tau_mass /
                    (tau_ctau0 *
                       sqrt (kinetic (base current) * (kinetic (base current) + 2 * tau_mass))))\<rparr>\<rparr>
        else current) \<and>
   (0 < kinetic (base current) \<and> 0 < tau_mass \<and> 0 < tau_ctau0 \<longrightarrow>
      0 < tau_ctau0 * sqrt (kinetic (base current) * (kinetic (base current) + 2 * tau_mass)))"
  by (simp add: backward_tau_def backward_decay_weight_def Let_def)

lemma sqrt_momentum_bound: "10 ^ 9 \<le> sqrt (10 ^ 9 * (10 ^ 9 + 2 * (1777 / 1000)))"
proof -
  have "sqrt ((10 ^ 9) ^ 2) \<le> sqrt (10 ^ 9 * (10 ^ 9 + 2 * (1777 / 1000)))"
    by (rule real_sqrt_le_mono) simp
  then show ?thesis by simp
qed

text \<open>
  Claim C3 as stated fails in flux mode: the tau of a backward run for the flux of taus,
  at the first generation, is propagated with its weight unchanged, and the factor of
  the claim would have made it smaller.
\<close>

theorem backward_decay_weight_counterexample:
  "is_tau surface_tau \<and> \<not> decay (api (sim_context tau_flux_run)) \<and>
   backward_tau 1 exit_engines 1.777 (8703 / 10 ^ 8) 1 tau_flux_run surface_tau
     = backward_tau_loop 1 exit_engines 1.777 (8703 / 10 ^ 8) 1 tau_flux_run surface_tau \<and>
   weight (base surface_tau) *
     (1.777 / (8703 / 10 ^ 8 *
        sqrt (kinetic (base surface_tau) * (kinetic (base surface_tau) + 2 * 1.777))))
     < weight (base surface_tau)"
proof -
  have w: "weight (base surface_tau) = 1" "kinetic (base surface_tau) = 10 ^ 9"
    "is_tau surface_tau"
    by (simp_all add: surface_tau_def)
  have d: "\<not> decay (api (sim_context tau_flux_run))"
    by (simp add: tau_flux_run_def flux_context_def)
  have "1.777 / (8703 / 10 ^ 8 * sqrt (10 ^ 9 * (10 ^ 9 + 2 * (1777 / 1000))))
          \<le> 1.777 / (8703 / 10 ^ 8 * 10 ^ 9)"
    using sqrt_momentum_bound by (intro divide_left_mono mult_left_mono) simp_all
  also have "\<dots> < (1::real)" by simp
  finally have lt: "1.777 / (8703 / 10 ^ 8 * sqrt (10 ^ 9 * (10 ^ 9 + 2 * (1777 / 1000)))) < (1::real)" .
  have eq: "backward_tau 1 exit_engines 1.777 (8703 / 10 ^ 8) 1 tau_flux_run surface_tau
     = backward_tau_loop 1 exit_engines 1.777 (8703 / 10 ^ 8) 1 tau_flux_run surface_tau"
    using d by (simp add: backward_tau_def backward_decay_weight_def del: backward_tau_loop.simps)
  have less: "weight (base surface_tau) *
     (1.777 / (8703 / 10 ^ 8 *
        sqrt (kinetic (base surface_tau) * (kinetic (base surface_tau) + 2 * 1.777))))
     < weight (base surface_tau)"
    unfolding w using lt by simp
  from w(3) d eq less show ?thesis
    by (intro conjI)
qed

theorem backward_decay_weight_applied_witness:
  "decay (api (sim_context decay_run)) \<and>
   backward_tau 1 exit_engines 1.777 (8703 / 10 ^ 8) 1 decay_run surface_tau =
     backward_tau_loop 1 exit_engines 1.777 (8703 / 10 ^ 8) 1 decay_run
       (surface_tau\<lparr>base := (base surface_tau)\<lparr>weight :=
          1 * (1.777 / (8703 / 10 ^ 8 * sqrt (10 ^ 9 * (10 ^ 9 + 2 * 1.777))))\<rparr>\<rparr>) \<and>
   0 < 8703 / 10 ^ 8 * sqrt (10 ^ 9 * (10 ^ 9 + 2 * 1.777))"
proof -
  have w: "weight (base surface_tau) = 1" "kinetic (base surface_tau) = 10 ^ 9"
    by (simp_all add: surface_tau_def)
  have d: "decay (api (sim_context decay_run))"
    by (simp add: decay_run_def decay_context_def flux_context_def)
  have k: "0 < kinetic (base surface_tau) \<and> (0::real) < 1.777 \<and> (0::real) < 8703 / 10 ^ 8"
    by (simp add: w)
  from backward_decay_weight_applied [of 1 exit_engines "1.777" "8703 / 10 ^ 8" 1 decay_run
        surface_tau] d k
  have "backward_tau 1 exit_engines 1.777 (8703 / 10 ^ 8) 1 decay_run surface_tau =
     backward_tau_loop 1 exit_engines 1.777 (8703 / 10 ^ 8) 1 decay_run
       (surface_tau\<lparr>base := (base surface_tau)\<lparr>weight :=
          weight (base surface_tau) *
            (1.777 / (8703 / 10 ^ 8 *
               sqrt (kinetic (base surface_tau) * (kinetic (base surface_tau) + 2 * 1.777))))\<rparr>\<rparr>)"
    and "0 < 8703 / 10 ^ 8 *
           sqrt (kinetic (base surface_tau) * (kinetic (base surface_tau) + 2 * 1.777))"
    by (simp_all only: if_True simp_thms)
  then show ?thesis
    unfolding w using d by (intro conjI)
qed

end
